theory Spec2Isabelle
  imports Main "HOL-Library.AList"
begin

section \<open>Python values and effects\<close>

text \<open>
  A Python \<open>str\<close> is modelled as a \<open>string\<close>, one \<open>char\<close> per code point, for code
  points below 256. The functions of this section are the Python built-ins that
  \<open>gspread_utils.py\<close> calls on strings and numbers.
\<close>

fun starts_with :: "string \<Rightarrow> string \<Rightarrow> bool" where
  "starts_with [] s = True"
| "starts_with (p # ps) [] = False"
| "starts_with (p # ps) (c # cs) = (p = c \<and> starts_with ps cs)"

text \<open>\<open>str_in pat s\<close> is Python's \<open>pat in s\<close> on strings: \<open>pat\<close> occurs in \<open>s\<close> as a
  contiguous run.\<close>

fun str_in :: "string \<Rightarrow> string \<Rightarrow> bool" where
  "str_in pat [] = (pat = [])"
| "str_in pat (c # cs) = (starts_with pat (c # cs) \<or> str_in pat cs)"

text \<open>\<open>str.lower()\<close> on code points below 256: the letters A-Z and the Latin-1 capitals
  (0xC0-0xDE without the multiplication sign 0xD7) move up by 32.\<close>

definition lower_char :: "char \<Rightarrow> char" where
  "lower_char c =
     (let n = (of_char c :: nat)
      in if (65 \<le> n \<and> n \<le> 90) \<or> (192 \<le> n \<and> n \<le> 222 \<and> n \<noteq> 215)
         then char_of (n + 32) else c)"

definition lower :: "string \<Rightarrow> string" where
  "lower s = map lower_char s"

text \<open>The decimal text of a non-negative integer, as an f-string prints it.\<close>

fun show_nat :: "nat \<Rightarrow> string" where
  "show_nat n =
     (if n < 10 then [char_of (48 + n)]
      else show_nat (n div 10) @ [char_of (48 + n mod 10)])"

declare show_nat.simps [simp del]

text \<open>
  The exceptions the module distinguishes. \<open>JSONDecodeError\<close> is
  \<open>requests.exceptions.JSONDecodeError\<close>, \<open>APIError\<close> is \<open>gspread.client.APIError\<close>;
  \<open>ValueError\<close> is what the module itself raises; \<open>OtherError\<close> (type name, message) is
  any other exception type. An API error carries \<open>str(e)\<close> and the text that
  \<open>traceback.format_exc()\<close> prints before the line of the exception itself: the
  tracebacks of chained exceptions if any, the header and the frame lines.
\<close>

record api_error =
  api_message :: string
  api_trace :: string

datatype exn =
    JSONDecodeError string
  | APIError api_error
  | ValueError string
  | OtherError string string

datatype 'a outcome = Returns 'a | Raises exn

text \<open>\<open>traceback.format_exc()\<close> inside the handler of an API error: the trace, then
  the line of the exception itself, which ends with \<open>str(e)\<close>.\<close>

definition format_exc :: "api_error \<Rightarrow> string" where
  "format_exc e =
     api_trace e @ ''gspread.exceptions.APIError'' @
     (if api_message e = [] then [] else '': '' @ api_message e) @ [CHR 0x0A]"

text \<open>
  The world a call runs in: the state behind the remote API (\<open>remote\<close>), the durations
  passed to \<open>sleep\<close> so far, and the lines passed to \<open>print\<close> so far. A zero-argument
  callable is a function from the world to its outcome and the world afterwards.
\<close>

record 'r world =
  remote :: 'r
  slept :: "nat list"
  printed :: "string list"

type_synonym ('a, 'r) operation = "'r world \<Rightarrow> 'a outcome \<times> 'r world"

definition py_sleep :: "nat \<Rightarrow> 'r world \<Rightarrow> 'r world" where
  "py_sleep n w = w\<lparr>slept := slept w @ [n]\<rparr>"

definition py_print :: "string \<Rightarrow> 'r world \<Rightarrow> 'r world" where
  "py_print s w = w\<lparr>printed := printed w @ [s]\<rparr>"

text \<open>A call into the gspread library touches the remote state only: it neither sleeps
  nor prints.\<close>

definition remote_call :: "('r \<Rightarrow> 'a outcome \<times> 'r) \<Rightarrow> ('a, 'r) operation" where
  "remote_call g w = (case g (remote w) of (res, r1) \<Rightarrow> (res, w\<lparr>remote := r1\<rparr>))"

definition return_op :: "'a \<Rightarrow> ('a, 'r) operation" where
  "return_op v w = (Returns v, w)"

definition raise_op :: "exn \<Rightarrow> ('a, 'r) operation" where
  "raise_op x w = (Raises x, w)"

text \<open>Statement sequencing: an exception of the first statement skips the rest.\<close>

definition bind_op :: "('a, 'r) operation \<Rightarrow> ('a \<Rightarrow> ('b, 'r) operation) \<Rightarrow> ('b, 'r) operation" where
  "bind_op m k w = (case m w of (Returns v, w1) \<Rightarrow> k v w1 | (Raises x, w1) \<Rightarrow> (Raises x, w1))"

section \<open>\<open>gspread_function\<close>: the retrying call wrapper\<close>

definition counter_threshold :: nat where
  "counter_threshold = 9"

text \<open>The three tests of the \<open>APIError\<close> handler, in the order of its \<open>if\<close>/\<open>elif\<close> chain.\<close>

definition is_502 :: "api_error \<Rightarrow> bool" where
  "is_502 e = (str_in ''502'' (api_message e) \<or> str_in ''Server Error'' (format_exc e))"

definition is_rate_limit :: "api_error \<Rightarrow> bool" where
  "is_rate_limit e =
     (str_in ''Quota exceeded'' (format_exc e) \<or>
      str_in ''Read requests per minute per user'' (format_exc e))"

definition is_unavailable :: "api_error \<Rightarrow> bool" where
  "is_unavailable e = str_in ''the service is currently unavailable'' (lower (format_exc e))"

definition retry_line :: "string \<Rightarrow> nat \<Rightarrow> string" where
  "retry_line what counter =
     what @ ''. Retrying ('' @ show_nat (counter + 1) @ ''/'' @ show_nat counter_threshold @ '')...''"

text \<open>
  One pass through the \<open>try\<close> statement either leaves the function (\<open>return\<close> or \<open>raise\<close>)
  or falls through to \<open>counter += 1\<close>.
\<close>

datatype ('a, 'r) try_exit = Leave "'a outcome \<times> 'r world" | Fall "'r world"

fun except_clauses :: "exn \<Rightarrow> nat \<Rightarrow> 'r world \<Rightarrow> ('a, 'r) try_exit" where
  "except_clauses (JSONDecodeError m) counter w =
     Fall (py_sleep 30 (py_print ''JSONDecodeError. Sleeping for 30 seconds.'' w))"
| "except_clauses (APIError e) counter w =
     (if is_502 e then
        Fall (py_sleep 30 (py_print (retry_line ''502 Server Error'' counter) w))
      else if is_rate_limit e then
        Fall (py_sleep 30 (py_print (retry_line ''Rate limit hit'' counter) w))
      else if is_unavailable e then
        Fall (py_sleep 30 (py_print (retry_line ''Service unavailable'' counter) w))
      else Leave (Raises (APIError e), py_print (format_exc e) w))"
| "except_clauses (ValueError m) counter w = Leave (Raises (ValueError m), w)"
| "except_clauses (OtherError t m) counter w = Leave (Raises (OtherError t m), w)"

definition try_call :: "('a, 'r) operation \<Rightarrow> nat \<Rightarrow> 'r world \<Rightarrow> ('a, 'r) try_exit" where
  "try_call f counter w =
     (case f w of
        (Returns v, w1) \<Rightarrow> Leave (Returns v, w1)
      | (Raises x, w1) \<Rightarrow> except_clauses x counter w1)"

function retry_loop :: "('a, 'r) operation \<Rightarrow> nat \<Rightarrow> 'r world \<Rightarrow> 'a outcome \<times> 'r world" where
  "retry_loop f counter w =
     (if counter < counter_threshold then
        (case try_call f counter w of
           Leave res \<Rightarrow> res
         | Fall w1 \<Rightarrow> retry_loop f (counter + 1) w1)
      else f (py_print ''Final attempt after hitting retry threshold.'' w))"
  by pat_completeness auto
termination
  by (relation "measure (\<lambda>(f, counter, w). counter_threshold - counter)") auto

declare retry_loop.simps [simp del]

definition gspread_function :: "('a, 'r) operation \<Rightarrow> ('a, 'r) operation" where
  "gspread_function f w = retry_loop f 0 w"

text \<open>The states in which the condition of the \<open>while\<close> loop is evaluated, for a call
  of \<open>gspread_function f\<close> that starts in \<open>w0\<close>.\<close>

inductive loop_head :: "('a, 'r) operation \<Rightarrow> 'r world \<Rightarrow> nat \<Rightarrow> 'r world \<Rightarrow> bool"
  for f :: "('a, 'r) operation" and w0 :: "'r world" where
  enter: "loop_head f w0 0 w0"
| again: "loop_head f w0 counter w \<Longrightarrow> counter < counter_threshold \<Longrightarrow>
          try_call f counter w = Fall w1 \<Longrightarrow> loop_head f w0 (counter + 1) w1"


text \<open>
  The classification of a caught error, as the handler's branches give it. An exception
  that no \<open>except\<close> clause catches has none.
\<close>

datatype classification =
    TRANSIENT_PARSE
  | TRANSIENT_SERVER_502
  | TRANSIENT_RATE_LIMIT
  | TRANSIENT_UNAVAILABLE
  | FATAL

fun classify :: "exn \<Rightarrow> classification option" where
  "classify (JSONDecodeError m) = Some TRANSIENT_PARSE"
| "classify (APIError e) =
     Some (if is_502 e then TRANSIENT_SERVER_502
           else if is_rate_limit e then TRANSIENT_RATE_LIMIT
           else if is_unavailable e then TRANSIENT_UNAVAILABLE
           else FATAL)"
| "classify (ValueError m) = None"
| "classify (OtherError t m) = None"

definition transient :: "exn \<Rightarrow> bool" where
  "transient x = (classify x \<noteq> None \<and> classify x \<noteq> Some FATAL)"

text \<open>The line printed before the backoff sleep of a retried attempt.\<close>

definition attempt_line :: "exn \<Rightarrow> nat \<Rightarrow> string" where
  "attempt_line x counter =
     (case classify x of
        Some TRANSIENT_SERVER_502 \<Rightarrow> retry_line ''502 Server Error'' counter
      | Some TRANSIENT_RATE_LIMIT \<Rightarrow> retry_line ''Rate limit hit'' counter
      | Some TRANSIENT_UNAVAILABLE \<Rightarrow> retry_line ''Service unavailable'' counter
      | _ \<Rightarrow> ''JSONDecodeError. Sleeping for 30 seconds.'')"

text \<open>
  A library call \<open>g\<close> invoked again and again: \<open>remote_after g n r\<close> is the remote state
  after \<open>n\<close> invocations that started in \<open>r\<close>, \<open>nth_outcome g n r\<close> the outcome of the
  invocation after those, and \<open>nth_raised\<close> the exception it raised.
\<close>

fun remote_after :: "('r \<Rightarrow> 'a outcome \<times> 'r) \<Rightarrow> nat \<Rightarrow> 'r \<Rightarrow> 'r" where
  "remote_after g 0 r = r"
| "remote_after g (Suc n) r = snd (g (remote_after g n r))"

definition nth_outcome :: "('r \<Rightarrow> 'a outcome \<times> 'r) \<Rightarrow> nat \<Rightarrow> 'r \<Rightarrow> 'a outcome" where
  "nth_outcome g n r = fst (g (remote_after g n r))"

fun raised :: "'a outcome \<Rightarrow> exn option" where
  "raised (Returns v) = None"
| "raised (Raises x) = Some x"

definition fails_transiently :: "'a outcome \<Rightarrow> bool" where
  "fails_transiently res = (case raised res of None \<Rightarrow> False | Some x \<Rightarrow> transient x)"

definition line_of :: "'a outcome \<Rightarrow> nat \<Rightarrow> string" where
  "line_of res counter = (case raised res of None \<Rightarrow> [] | Some x \<Rightarrow> attempt_line x counter)"

text \<open>The spec's wording of the 502 class: "502" or "Server Error" occurs in the
  error's message or in its stack trace.\<close>

definition spec_502 :: "api_error \<Rightarrow> bool" where
  "spec_502 e =
     ((str_in ''502'' (api_message e) \<or> str_in ''502'' (format_exc e)) \<or>
      (str_in ''Server Error'' (api_message e) \<or> str_in ''Server Error'' (format_exc e)))"

section \<open>The \<open>GSPREAD\<close> class\<close>

text \<open>
  The gspread library is a parameter of the model: a record of its calls, each a function
  of the remote state. The module-level client \<open>gc\<close> is a parameter of the methods that
  read it.
\<close>

datatype client = Client nat

datatype workbook = Workbook nat

record worksheet =
  title :: string
  wid :: int
  url :: string

datatype json =
    JString string
  | JInt int
  | JFloat string
  | JBool bool
  | JObject "(string \<times> json) list"

record 'r gspread_api =
  service_account :: "'r \<Rightarrow> client outcome \<times> 'r"
  client_open :: "client \<Rightarrow> string \<Rightarrow> 'r \<Rightarrow> workbook outcome \<times> 'r"
  worksheets :: "workbook \<Rightarrow> 'r \<Rightarrow> worksheet list outcome \<times> 'r"
  get_worksheet_by_id :: "workbook \<Rightarrow> int \<Rightarrow> 'r \<Rightarrow> worksheet outcome \<times> 'r"
  ws_clear_basic_filter :: "worksheet \<Rightarrow> 'r \<Rightarrow> json outcome \<times> 'r"
  ws_freeze :: "worksheet \<Rightarrow> nat option \<Rightarrow> nat option \<Rightarrow> 'r \<Rightarrow> json outcome \<times> 'r"
  ws_clear :: "worksheet \<Rightarrow> 'r \<Rightarrow> json outcome \<times> 'r"
  ws_update :: "worksheet \<Rightarrow> string \<Rightarrow> string list list \<Rightarrow> 'r \<Rightarrow> json outcome \<times> 'r"
  ws_format :: "worksheet \<Rightarrow> string \<Rightarrow> json \<Rightarrow> 'r \<Rightarrow> json outcome \<times> 'r"
  ws_get_all_values :: "worksheet \<Rightarrow> 'r \<Rightarrow> string list list outcome \<times> 'r"
  ws_append_row :: "worksheet \<Rightarrow> string list \<Rightarrow> 'r \<Rightarrow> json outcome \<times> 'r"
  ws_col_values :: "worksheet \<Rightarrow> int \<Rightarrow> 'r \<Rightarrow> string list outcome \<times> 'r"
  ws_batch_clear :: "worksheet \<Rightarrow> string list \<Rightarrow> 'r \<Rightarrow> json outcome \<times> 'r"
  ws_delete_rows :: "worksheet \<Rightarrow> int \<Rightarrow> int \<Rightarrow> 'r \<Rightarrow> json outcome \<times> 'r"

text \<open>
  What the module uses of a \<open>DataFrame\<close>: \<open>list(df.columns)\<close>, \<open>df.shape[1]\<close> and the
  call \<open>df.values.tolist()\<close>. The last is the callable that \<open>replace_worksheet_with_df\<close>
  hands to \<open>gspread_function\<close>; for a pandas frame it returns the rows and changes
  nothing (\<open>frame\<close>).
\<close>

record 'r dataframe =
  columns :: "string list"
  shape1 :: nat
  values_tolist :: "'r \<Rightarrow> string list list outcome \<times> 'r"

definition frame :: "string list \<Rightarrow> string list list \<Rightarrow> 'r dataframe" where
  "frame header rows =
     \<lparr>columns = header, shape1 = length header, values_tolist = (\<lambda>r. (Returns rows, r))\<rparr>"

record gspread =
  self_gc :: client
  sh :: workbook

text \<open>A \<open>dict\<close> is an association list in insertion order; storing under a key that is
  present replaces the value where the key stands.\<close>

definition dict_of :: "('k \<times> 'v) list \<Rightarrow> ('k \<times> 'v) list" where
  "dict_of ps = foldl (\<lambda>d (k, v). AList.update k v d) [] ps"

text \<open>\<open>repr\<close> of a string and \<open>str\<close> of a list of strings, for code points below 256.\<close>

definition printable :: "char \<Rightarrow> bool" where
  "printable c =
     (let n = (of_char c :: nat)
      in (32 \<le> n \<and> n < 127) \<or> (161 \<le> n \<and> n \<noteq> 173))"

definition hex_digit :: "nat \<Rightarrow> char" where
  "hex_digit d = (if d < 10 then char_of (48 + d) else char_of (87 + d))"

definition repr_char :: "char \<Rightarrow> char \<Rightarrow> string" where
  "repr_char q c =
     (if c = q \<or> c = CHR 0x5C then [CHR 0x5C, c]
      else if c = CHR 0x09 then [CHR 0x5C, CHR ''t'']
      else if c = CHR 0x0A then [CHR 0x5C, CHR ''n'']
      else if c = CHR 0x0D then [CHR 0x5C, CHR ''r'']
      else if \<not> printable c then
        [CHR 0x5C, CHR ''x'', hex_digit ((of_char c :: nat) div 16),
         hex_digit ((of_char c :: nat) mod 16)]
      else [c])"

definition py_repr :: "string \<Rightarrow> string" where
  "py_repr s =
     (let q = (if CHR 0x27 \<in> set s \<and> CHR 0x22 \<notin> set s then CHR 0x22 else CHR 0x27)
      in [q] @ concat (map (repr_char q) s) @ [q])"

fun join :: "string \<Rightarrow> string list \<Rightarrow> string" where
  "join sep [] = []"
| "join sep [x] = x"
| "join sep (x # y # ys) = x @ sep @ join sep (y # ys)"

definition str_list :: "string list \<Rightarrow> string" where
  "str_list xs = ''['' @ join '', '' (map py_repr xs) @ '']''"

definition open_workbook :: "'r gspread_api \<Rightarrow> client \<Rightarrow> string \<Rightarrow> (workbook, 'r) operation" where
  "open_workbook api gc workbook_name =
     gspread_function (remote_call (client_open api gc workbook_name))"

definition GSPREAD_init :: "'r gspread_api \<Rightarrow> client \<Rightarrow> string \<Rightarrow> (gspread, 'r) operation" where
  "GSPREAD_init api gc workbook_name =
     bind_op (remote_call (service_account api)) (\<lambda>c.
     bind_op (gspread_function (open_workbook api gc workbook_name)) (\<lambda>s.
     return_op \<lparr>self_gc = c, sh = s\<rparr>))"

definition get_worksheet_dict :: "'r gspread_api \<Rightarrow> gspread \<Rightarrow> ((string \<times> int) list, 'r) operation" where
  "get_worksheet_dict api self =
     bind_op (gspread_function (remote_call (worksheets api (sh self)))) (\<lambda>wss.
     return_op (dict_of (map (\<lambda>ws. (title ws, wid ws)) wss)))"

definition get_sheet_by_id :: "'r gspread_api \<Rightarrow> gspread \<Rightarrow> int \<Rightarrow> (worksheet, 'r) operation" where
  "get_sheet_by_id api self sheet_id =
     gspread_function (remote_call (get_worksheet_by_id api (sh self) sheet_id))"

definition get_sheet_by_name :: "'r gspread_api \<Rightarrow> gspread \<Rightarrow> string \<Rightarrow> (worksheet, 'r) operation" where
  "get_sheet_by_name api self sheet_name =
     bind_op (get_worksheet_dict api self) (\<lambda>d.
     let worksheet_names = dict_of (map (\<lambda>(k, v). (lower k, v)) d)
     in if lower sheet_name \<notin> set (map fst worksheet_names) then
          raise_op (ValueError (''Worksheet name must be one of '' @
                                str_list (map fst worksheet_names)))
        else (case map_of worksheet_names (lower sheet_name) of
                None \<Rightarrow> raise_op (OtherError ''KeyError'' (py_repr (lower sheet_name)))
              | Some sheet_id \<Rightarrow> get_sheet_by_id api self sheet_id))"

function number_to_column_loop :: "int \<Rightarrow> string \<Rightarrow> string" where
  "number_to_column_loop n result =
     (if n > 0 then
        number_to_column_loop ((n - 1) div 26) (char_of (nat (65 + (n - 1) mod 26)) # result)
      else result)"
  by pat_completeness auto
termination
  by (relation "measure (\<lambda>(n, result). nat n)") auto

declare number_to_column_loop.simps [simp del]

definition number_to_column :: "int \<Rightarrow> bool \<Rightarrow> string" where
  "number_to_column n start_at_0 = number_to_column_loop (if start_at_0 then n + 1 else n) []"

definition data_format :: json where
  "data_format =
     JObject
       [(''backgroundColor'',
           JObject [(''red'', JFloat ''1.0''), (''green'', JFloat ''1.0''), (''blue'', JFloat ''1.0'')]),
        (''horizontalAlignment'', JString ''CENTER''),
        (''textFormat'',
           JObject
             [(''foregroundColor'',
                 JObject [(''red'', JFloat ''0.0''), (''green'', JFloat ''0.0''), (''blue'', JFloat ''0.0'')]),
              (''fontSize'', JInt 10),
              (''bold'', JBool False)])]"

definition replace_worksheet_with_df ::
  "'r gspread_api \<Rightarrow> gspread \<Rightarrow> string \<Rightarrow> 'r dataframe \<Rightarrow> int \<Rightarrow> (worksheet, 'r) operation" where
  "replace_worksheet_with_df api self worksheet_name df extra_rows =
     bind_op (get_sheet_by_name api self worksheet_name) (\<lambda>worksheet.
     bind_op (gspread_function (remote_call (ws_clear_basic_filter api worksheet))) (\<lambda>_.
     bind_op (gspread_function (remote_call (ws_freeze api worksheet (Some 0) (Some 0)))) (\<lambda>_.
     let headers = [columns df] in
     bind_op (gspread_function (remote_call (values_tolist df))) (\<lambda>data_rows.
     let all_rows = headers @ data_rows in
     bind_op (gspread_function (remote_call (ws_clear api worksheet))) (\<lambda>_.
     let col_letter = number_to_column (int (shape1 df)) False;
         range_label = ''A1:'' @ col_letter @ show_nat (length all_rows) in
     bind_op (gspread_function (remote_call (ws_update api worksheet range_label all_rows))) (\<lambda>_.
     bind_op (if length all_rows > 1 then
                gspread_function (remote_call
                  (ws_format api worksheet (''A2:'' @ col_letter @ show_nat (length all_rows))
                     data_format))
              else return_op (JObject [])) (\<lambda>_.
     bind_op (gspread_function (remote_call (ws_freeze api worksheet (Some 1) None))) (\<lambda>_.
     return_op worksheet))))))))"

text \<open>A sheet reference as \<open>_sheet_check\<close> tells them apart: a \<open>Worksheet\<close> object, a
  \<open>str\<close>, an \<open>int\<close>, or an object of any other type (given by the name of its type).\<close>

datatype sheet_ref =
    WorksheetRef worksheet
  | StrRef string
  | IntRef int
  | OtherRef string

fun sheet_check :: "'r gspread_api \<Rightarrow> gspread \<Rightarrow> sheet_ref \<Rightarrow> (worksheet, 'r) operation" where
  "sheet_check api self (WorksheetRef sheet) = return_op sheet"
| "sheet_check api self (StrRef sheet) = get_sheet_by_name api self sheet"
| "sheet_check api self (IntRef sheet) = get_sheet_by_id api self sheet"
| "sheet_check api self (OtherRef t) =
     raise_op (ValueError ''Invalid sheet reference. Use name (str), ID (int), or Worksheet object.'')"

definition update_rows_by_range ::
  "'r gspread_api \<Rightarrow> gspread \<Rightarrow> sheet_ref \<Rightarrow> string \<Rightarrow> string list list \<Rightarrow> (worksheet, 'r) operation" where
  "update_rows_by_range api self sheet cell_range vals =
     bind_op (sheet_check api self sheet) (\<lambda>worksheet.
     bind_op (gspread_function (remote_call (ws_update api worksheet cell_range vals))) (\<lambda>_.
     return_op worksheet))"

text \<open>\<open>sheet_to_df\<close>: the first row of the grid becomes the header; \<open>df.iloc[0]\<close> raises
  \<open>IndexError\<close> on a grid without rows. The grid is taken as rectangular, as
  \<open>get_all_values\<close> returns it.\<close>

definition sheet_to_df :: "'r gspread_api \<Rightarrow> gspread \<Rightarrow> sheet_ref \<Rightarrow> ('r dataframe, 'r) operation" where
  "sheet_to_df api self sheet =
     bind_op (sheet_check api self sheet) (\<lambda>sheet.
     bind_op (gspread_function (remote_call (ws_get_all_values api sheet))) (\<lambda>data.
     case data of
       [] \<Rightarrow> raise_op (OtherError ''IndexError'' ''single positional indexer is out-of-bounds'')
     | header # rows \<Rightarrow> return_op (frame header rows)))"

definition append_row_to_sheet ::
  "'r gspread_api \<Rightarrow> gspread \<Rightarrow> sheet_ref \<Rightarrow> string list \<Rightarrow> (worksheet, 'r) operation" where
  "append_row_to_sheet api self sheet row =
     bind_op (sheet_check api self sheet) (\<lambda>sheet.
     bind_op (gspread_function (remote_call (ws_append_row api sheet row))) (\<lambda>_.
     return_op sheet))"

definition get_sheet_url :: "'r gspread_api \<Rightarrow> gspread \<Rightarrow> sheet_ref \<Rightarrow> (string, 'r) operation" where
  "get_sheet_url api self sheet =
     bind_op (sheet_check api self sheet) (\<lambda>sheet. return_op (url sheet))"

definition get_column_values ::
  "'r gspread_api \<Rightarrow> gspread \<Rightarrow> sheet_ref \<Rightarrow> int \<Rightarrow> (string list, 'r) operation" where
  "get_column_values api self sheet index =
     bind_op (sheet_check api self sheet) (\<lambda>sheet.
     gspread_function (remote_call (ws_col_values api sheet index)))"

definition batch_clear ::
  "'r gspread_api \<Rightarrow> gspread \<Rightarrow> sheet_ref \<Rightarrow> string \<Rightarrow> (json, 'r) operation" where
  "batch_clear api self sheet range' =
     bind_op (sheet_check api self sheet) (\<lambda>sheet.
     gspread_function (remote_call (ws_batch_clear api sheet [range'])))"

definition clear_basic_filter :: "'r gspread_api \<Rightarrow> gspread \<Rightarrow> sheet_ref \<Rightarrow> (json, 'r) operation" where
  "clear_basic_filter api self sheet =
     bind_op (sheet_check api self sheet) (\<lambda>sheet.
     gspread_function (remote_call (ws_clear_basic_filter api sheet)))"

definition delete_rows ::
  "'r gspread_api \<Rightarrow> gspread \<Rightarrow> sheet_ref \<Rightarrow> int \<Rightarrow> int \<Rightarrow> (json, 'r) operation" where
  "delete_rows api self sheet starting_index ending_index =
     bind_op (sheet_check api self sheet) (\<lambda>sheet.
     gspread_function (remote_call (ws_delete_rows api sheet starting_index ending_index)))"

text \<open>Two names are the same up to case when they have the same length and, position by
  position, the characters are equal or one is the lower-case form of the other.\<close>

definition same_up_to_case :: "string \<Rightarrow> string \<Rightarrow> bool" where
  "same_up_to_case a b =
     list_all2 (\<lambda>c d. c = d \<or> lower_char c = d \<or> c = lower_char d) a b"

text \<open>
  The method as the specification describes it, for comparison with the code: the same
  statements, with the conversion \<open>df.values.tolist()\<close> called outside the retry
  wrapper.
\<close>

definition replace_worksheet_with_df_unwrapped ::
  "'r gspread_api \<Rightarrow> gspread \<Rightarrow> string \<Rightarrow> 'r dataframe \<Rightarrow> int \<Rightarrow> (worksheet, 'r) operation" where
  "replace_worksheet_with_df_unwrapped api self worksheet_name df extra_rows =
     bind_op (get_sheet_by_name api self worksheet_name) (\<lambda>worksheet.
     bind_op (gspread_function (remote_call (ws_clear_basic_filter api worksheet))) (\<lambda>_.
     bind_op (gspread_function (remote_call (ws_freeze api worksheet (Some 0) (Some 0)))) (\<lambda>_.
     let headers = [columns df] in
     bind_op (remote_call (values_tolist df)) (\<lambda>data_rows.
     let all_rows = headers @ data_rows in
     bind_op (gspread_function (remote_call (ws_clear api worksheet))) (\<lambda>_.
     let col_letter = number_to_column (int (shape1 df)) False;
         range_label = ''A1:'' @ col_letter @ show_nat (length all_rows) in
     bind_op (gspread_function (remote_call (ws_update api worksheet range_label all_rows))) (\<lambda>_.
     bind_op (if length all_rows > 1 then
                gspread_function (remote_call
                  (ws_format api worksheet (''A2:'' @ col_letter @ show_nat (length all_rows))
                     data_format))
              else return_op (JObject [])) (\<lambda>_.
     bind_op (gspread_function (remote_call (ws_freeze api worksheet (Some 1) None))) (\<lambda>_.
     return_op worksheet))))))))"

text \<open>The distinct elements of a list, in the order of their first occurrence: the order
  in which a \<open>dict\<close> lists its keys.\<close>

definition first_seen :: "'a list \<Rightarrow> 'a list" where
  "first_seen xs = rev (remdups (rev xs))"

text \<open>The exception types that the \<open>except\<close> clauses of \<open>gspread_function\<close> name.\<close>

fun caught :: "exn \<Rightarrow> bool" where
  "caught (JSONDecodeError m) = True"
| "caught (APIError e) = True"
| "caught (ValueError m) = False"
| "caught (OtherError t m) = False"

section \<open>Scenarios\<close>

text \<open>
  Library calls for the scenarios of the specification. The remote state is the number
  of invocations so far: \<open>always_raises x\<close> raises \<open>x\<close> every time, \<open>flaky k x v\<close> raises
  \<open>x\<close> on its first \<open>k\<close> invocations and returns \<open>v\<close> from then on.
\<close>

definition always_raises :: "exn \<Rightarrow> nat \<Rightarrow> int outcome \<times> nat" where
  "always_raises x n = (Raises x, Suc n)"

definition flaky :: "nat \<Rightarrow> exn \<Rightarrow> 'a \<Rightarrow> nat \<Rightarrow> 'a outcome \<times> nat" where
  "flaky k x v n = (if n < k then Raises x else Returns v, Suc n)"

definition plain_trace :: string where
  \<open>plain_trace =
     ''Traceback (most recent call last):'' @ [CHR 0x0A] @
     ''  File "/srv/app/gspread_utils.py", line 33, in gspread_function'' @ [CHR 0x0A] @
     ''    return f()'' @ [CHR 0x0A]\<close>

definition bad_gateway :: api_error where
  "bad_gateway = \<lparr>api_message = ''502 Server Error'', api_trace = plain_trace\<rparr>"

definition invalid_range :: api_error where
  "invalid_range = \<lparr>api_message = ''Invalid range'', api_trace = plain_trace\<rparr>"

text \<open>An API error whose message matches no pattern and whose traceback passes through
  line 502 of a source file.\<close>

definition line_502 :: api_error where
  \<open>line_502 =
     \<lparr>api_message = ''Invalid range'',
      api_trace =
        ''Traceback (most recent call last):'' @ [CHR 0x0A] @
        ''  File "/srv/app/sync.py", line 502, in push'' @ [CHR 0x0A] @
        ''    sheet.update(cells, rows)'' @ [CHR 0x0A]\<rparr>\<close>

definition fresh :: "nat world" where
  "fresh = \<lparr>remote = 0, slept = [], printed = []\<rparr>"

text \<open>
  A remote workbook with the worksheets "sheet1" (id 0) and "Sheet2" (id 7), in which
  every call on a client, workbook or worksheet succeeds and counts as one invocation;
  \<open>service_account\<close> reads local credentials and leaves the count alone. \<open>open\<close> returns
  the workbook of the client it is called on.
\<close>

definition sheet1 :: worksheet where
  "sheet1 = \<lparr>title = ''sheet1'', wid = 0, url = ''https://docs.google.com/spreadsheets/d/demo#gid=0''\<rparr>"

definition sheet2 :: worksheet where
  "sheet2 = \<lparr>title = ''Sheet2'', wid = 7, url = ''https://docs.google.com/spreadsheets/d/demo#gid=7''\<rparr>"

definition demo_api :: "nat gspread_api" where
  "demo_api =
     \<lparr>service_account = (\<lambda>n. (Returns (Client 1), n)),
      client_open = (\<lambda>c name n. (case c of Client k \<Rightarrow> Returns (Workbook k), Suc n)),
      worksheets = (\<lambda>b n. (Returns [sheet1, sheet2], Suc n)),
      get_worksheet_by_id = (\<lambda>b i n.
        (case find (\<lambda>ws. wid ws = i) [sheet1, sheet2] of
           Some ws \<Rightarrow> Returns ws
         | None \<Rightarrow> Raises (OtherError ''WorksheetNotFound'' ''id''),
         Suc n)),
      ws_clear_basic_filter = (\<lambda>ws n. (Returns (JObject []), Suc n)),
      ws_freeze = (\<lambda>ws rows cols n. (Returns (JObject []), Suc n)),
      ws_clear = (\<lambda>ws n. (Returns (JObject []), Suc n)),
      ws_update = (\<lambda>ws label rows n. (Returns (JObject []), Suc n)),
      ws_format = (\<lambda>ws label fmt n. (Returns (JObject []), Suc n)),
      ws_get_all_values = (\<lambda>ws n. (Returns [[''name''], [''ada'']], Suc n)),
      ws_append_row = (\<lambda>ws row n. (Returns (JObject []), Suc n)),
      ws_col_values = (\<lambda>ws i n. (Returns [''name'', ''ada''], Suc n)),
      ws_batch_clear = (\<lambda>ws ranges n. (Returns (JObject []), Suc n)),
      ws_delete_rows = (\<lambda>ws a b n. (Returns (JObject []), Suc n))\<rparr>"

definition demo_self :: gspread where
  "demo_self = \<lparr>self_gc = Client 1, sh = Workbook 0\<rparr>"

text \<open>The same remote during an outage: every \<open>open\<close> fails with a 502.\<close>

definition outage_api :: "nat gspread_api" where
  "outage_api = demo_api\<lparr>client_open := (\<lambda>c name n. (Raises (APIError bad_gateway), Suc n))\<rparr>"

text \<open>The same remote for a session whose \<open>service_account\<close> call yields another client.\<close>

definition other_api :: "nat gspread_api" where
  "other_api = demo_api\<lparr>service_account := (\<lambda>n. (Returns (Client 2), n))\<rparr>"

text \<open>A frame-like object whose \<open>values.tolist()\<close> raises a \<open>JSONDecodeError\<close> while fewer
  than five calls have reached the remote state, and returns one row afterwards.\<close>

definition moody_df :: "nat dataframe" where
  "moody_df =
     \<lparr>columns = [''name''], shape1 = 1,
      values_tolist = flaky 5 (JSONDecodeError ''Expecting value'') [[''ada'']]\<rparr>"

section \<open>Facts about the wrapper\<close>

lemma py_sleep_sel [simp]:
  "remote (py_sleep n w) = remote w"
  "slept (py_sleep n w) = slept w @ [n]"
  "printed (py_sleep n w) = printed w"
  by (simp_all add: py_sleep_def)

lemma py_print_sel [simp]:
  "remote (py_print s w) = remote w"
  "slept (py_print s w) = slept w"
  "printed (py_print s w) = printed w @ [s]"
  by (simp_all add: py_print_def)

lemma world_collapse [simp]:
  "\<lparr>remote = remote w, slept = slept w, printed = printed w\<rparr> = (w :: 'r world)"
  by (cases w) simp

lemma remote_call_eq:
  "remote_call g w = (fst (g (remote w)), w\<lparr>remote := snd (g (remote w))\<rparr>)"
  by (simp add: remote_call_def split: prod.split)

lemma retry_loop_returns:
  "counter < counter_threshold \<Longrightarrow> f w = (Returns v, w1) \<Longrightarrow>
   retry_loop f counter w = (Returns v, w1)"
  by (subst retry_loop.simps) (simp add: try_call_def)

lemma retry_loop_leave:
  "counter < counter_threshold \<Longrightarrow> f w = (Raises x, w1) \<Longrightarrow>
   except_clauses x counter w1 = Leave res \<Longrightarrow> retry_loop f counter w = res"
  by (subst retry_loop.simps) (simp add: try_call_def)

lemma retry_loop_fall:
  fixes f :: "('a, 'r) operation"
  shows "counter < counter_threshold \<Longrightarrow> f w = (Raises x, w1) \<Longrightarrow>
   except_clauses x counter w1 = (Fall w2 :: ('a, 'r) try_exit) \<Longrightarrow>
   retry_loop f counter w = retry_loop f (counter + 1) w2"
  by (subst retry_loop.simps) (simp add: try_call_def)

lemma retry_loop_final:
  "\<not> counter < counter_threshold \<Longrightarrow>
   retry_loop f counter w = f (py_print ''Final attempt after hitting retry threshold.'' w)"
  by (subst retry_loop.simps) simp

lemma except_clauses_transient:
  "transient x \<Longrightarrow>
   except_clauses x counter w = Fall (py_sleep 30 (py_print (attempt_line x counter) w))"
  by (cases x) (auto simp: transient_def attempt_line_def split: if_splits)

lemma except_clauses_fatal:
  "classify (APIError e) = Some FATAL \<Longrightarrow>
   except_clauses (APIError e) counter w = Leave (Raises (APIError e), py_print (format_exc e) w)"
  by (auto split: if_splits)

lemma except_clauses_unclassified:
  "classify x = None \<Longrightarrow> except_clauses x counter w = Leave (Raises x, w)"
  by (cases x) auto

lemma retry_loop_transient_step:
  assumes "counter < counter_threshold" and "fails_transiently (fst (g (remote w)))"
  shows "retry_loop (remote_call g) counter w =
         retry_loop (remote_call g) (counter + 1)
           \<lparr>remote = snd (g (remote w)), slept = slept w @ [30],
            printed = printed w @ [line_of (fst (g (remote w))) counter]\<rparr>"
proof -
  from assms(2) obtain x where x: "fst (g (remote w)) = Raises x" "transient x"
    by (cases "fst (g (remote w))") (auto simp: fails_transiently_def)
  have call: "remote_call g w = (Raises x, w\<lparr>remote := snd (g (remote w))\<rparr>)"
    using x(1) by (simp add: remote_call_eq)
  have "retry_loop (remote_call g) counter w =
        retry_loop (remote_call g) (counter + 1)
          (py_sleep 30 (py_print (attempt_line x counter) (w\<lparr>remote := snd (g (remote w))\<rparr>)))"
    using assms(1) call except_clauses_transient [OF x(2)] by (rule retry_loop_fall)
  moreover have "py_sleep 30 (py_print (attempt_line x counter) (w\<lparr>remote := snd (g (remote w))\<rparr>)) =
        \<lparr>remote = snd (g (remote w)), slept = slept w @ [30],
         printed = printed w @ [line_of (fst (g (remote w))) counter]\<rparr>"
    using x(1) by (simp add: py_sleep_def py_print_def line_of_def)
  ultimately show ?thesis by simp
qed

lemma retry_loop_transient:
  assumes "\<forall>i<k. fails_transiently (nth_outcome g i (remote w))"
    and "counter + k \<le> counter_threshold"
  shows "retry_loop (remote_call g) counter w =
         retry_loop (remote_call g) (counter + k)
           \<lparr>remote = remote_after g k (remote w), slept = slept w @ replicate k 30,
            printed = printed w @
              map (\<lambda>i. line_of (nth_outcome g i (remote w)) (counter + i)) [0..<k]\<rparr>"
  using assms
proof (induction k)
  case 0
  then show ?case by simp
next
  case (Suc k)
  let ?wk = "\<lparr>remote = remote_after g k (remote w), slept = slept w @ replicate k 30,
              printed = printed w @
                map (\<lambda>i. line_of (nth_outcome g i (remote w)) (counter + i)) [0..<k]\<rparr>"
  have "retry_loop (remote_call g) counter w = retry_loop (remote_call g) (counter + k) ?wk"
    using Suc by simp
  also have "\<dots> = retry_loop (remote_call g) (counter + k + 1)
      \<lparr>remote = snd (g (remote ?wk)), slept = slept ?wk @ [30],
       printed = printed ?wk @ [line_of (fst (g (remote ?wk))) (counter + k)]\<rparr>"
  proof (rule retry_loop_transient_step)
    show "counter + k < counter_threshold" using Suc.prems(2) by simp
    show "fails_transiently (fst (g (remote ?wk)))"
      using Suc.prems(1) by (simp add: nth_outcome_def)
  qed
  finally show ?case
    by (simp add: nth_outcome_def replicate_append_same)
qed

lemma loop_head_bound: "loop_head f w0 counter w \<Longrightarrow> counter \<le> counter_threshold"
  by (induction rule: loop_head.induct) auto


lemma try_call_transient:
  assumes "fails_transiently (fst (g (remote w)))"
  shows "try_call (remote_call g) counter w =
         Fall \<lparr>remote = snd (g (remote w)), slept = slept w @ [30],
               printed = printed w @ [line_of (fst (g (remote w))) counter]\<rparr>"
proof -
  from assms obtain x where x: "fst (g (remote w)) = Raises x" "transient x"
    by (cases "fst (g (remote w))") (auto simp: fails_transiently_def)
  then show ?thesis
    by (simp add: try_call_def remote_call_eq except_clauses_transient py_sleep_def
        py_print_def line_of_def)
qed

lemma loop_head_transient:
  assumes "\<forall>i<k. fails_transiently (nth_outcome g i (remote w))"
    and "k \<le> counter_threshold"
  shows "loop_head (remote_call g) w k
           \<lparr>remote = remote_after g k (remote w), slept = slept w @ replicate k 30,
            printed = printed w @ map (\<lambda>i. line_of (nth_outcome g i (remote w)) i) [0..<k]\<rparr>"
  using assms
proof (induction k)
  case 0
  then show ?case by (simp add: loop_head.enter)
next
  case (Suc k)
  let ?wk = "\<lparr>remote = remote_after g k (remote w), slept = slept w @ replicate k 30,
              printed = printed w @ map (\<lambda>i. line_of (nth_outcome g i (remote w)) i) [0..<k]\<rparr>"
  have head: "loop_head (remote_call g) w k ?wk" using Suc by simp
  have lt: "k < counter_threshold" using Suc.prems(2) by simp
  have "fails_transiently (fst (g (remote ?wk)))"
    using Suc.prems(1) by (simp add: nth_outcome_def)
  then have "try_call (remote_call g) k ?wk =
      Fall \<lparr>remote = snd (g (remote ?wk)), slept = slept ?wk @ [30],
            printed = printed ?wk @ [line_of (fst (g (remote ?wk))) k]\<rparr>"
    by (rule try_call_transient)
  with head lt have "loop_head (remote_call g) w (k + 1)
      \<lparr>remote = snd (g (remote ?wk)), slept = slept ?wk @ [30],
       printed = printed ?wk @ [line_of (fst (g (remote ?wk))) k]\<rparr>"
    by (rule loop_head.again)
  then show ?case
    by (simp add: nth_outcome_def replicate_append_same)
qed

lemma except_clauses_Fall:
  "except_clauses x counter w = Fall w1 \<Longrightarrow> slept w1 = slept w @ [30] \<and> remote w1 = remote w"
  by (cases x) (auto split: if_splits)

lemma try_call_remote_Fall:
  fixes g :: "'r \<Rightarrow> 'a outcome \<times> 'r"
  assumes "try_call (remote_call g) counter w = Fall w1"
  shows "slept w1 = slept w @ [30] \<and> remote w1 = snd (g (remote w))"
proof (cases "fst (g (remote w))")
  case (Returns v)
  with assms show ?thesis by (simp add: try_call_def remote_call_eq)
next
  case (Raises x)
  with assms have "except_clauses x counter (w\<lparr>remote := snd (g (remote w))\<rparr>) =
      (Fall w1 :: ('a, 'r) try_exit)"
    by (simp add: try_call_def remote_call_eq)
  from except_clauses_Fall [OF this] show ?thesis by simp
qed

lemma loop_head_remote:
  "loop_head (remote_call g) w counter w1 \<Longrightarrow>
   slept w1 = slept w @ replicate counter 30 \<and> remote w1 = remote_after g counter (remote w)"
proof (induction rule: loop_head.induct)
  case enter
  show ?case by simp
next
  case (again counter w1 w2)
  from try_call_remote_Fall [OF again.hyps(3)] again.IH show ?case
    by (simp add: replicate_append_same)
qed

lemma loop_head_leave:
  fixes f :: "('a, 'r) operation"
  assumes "loop_head f w counter w1" and "try_call f 0 w = Leave res"
  shows "counter = 0 \<and> w1 = w"
  using assms by (induction rule: loop_head.induct) auto

lemma always_raises_after [simp]: "remote_after (always_raises x) n r = r + n"
  by (induction n) (simp_all add: always_raises_def)

lemma always_raises_outcome [simp]: "nth_outcome (always_raises x) n r = Raises x"
  by (simp add: nth_outcome_def always_raises_def)

lemma str_in_502: "is_502 bad_gateway"
  by (simp add: is_502_def bad_gateway_def)

lemma starts_with_iff: "starts_with pat s \<longleftrightarrow> (\<exists>b. s = pat @ b)"
  by (induction pat s rule: starts_with.induct) auto

lemma str_in_iff: "str_in pat s \<longleftrightarrow> (\<exists>a b. s = a @ pat @ b)"
proof (induction s)
  case Nil
  show ?case by auto
next
  case (Cons c cs)
  show ?case
  proof
    assume "str_in pat (c # cs)"
    then consider "starts_with pat (c # cs)" | "str_in pat cs" by auto
    then show "\<exists>a b. c # cs = a @ pat @ b"
    proof cases
      case 1
      then obtain b where "c # cs = pat @ b" by (auto simp: starts_with_iff)
      then have "c # cs = [] @ pat @ b" by simp
      then show ?thesis by blast
    next
      case 2
      then obtain a b where "cs = a @ pat @ b" using Cons.IH by auto
      then have "c # cs = (c # a) @ pat @ b" by simp
      then show ?thesis by blast
    qed
  next
    assume "\<exists>a b. c # cs = a @ pat @ b"
    then obtain a b where ab: "c # cs = a @ pat @ b" by blast
    show "str_in pat (c # cs)"
    proof (cases a)
      case Nil
      with ab have "starts_with pat (c # cs)" by (auto simp: starts_with_iff)
      then show ?thesis by simp
    next
      case (Cons a1 as)
      with ab have "cs = as @ pat @ b" by simp
      then have "str_in pat cs" using Cons.IH by blast
      then show ?thesis by simp
    qed
  qed
qed

lemma str_in_embedded: "str_in pat s \<Longrightarrow> str_in pat (a @ s @ b)"
proof -
  assume "str_in pat s"
  then obtain u v where "s = u @ pat @ v" by (auto simp: str_in_iff)
  then have "a @ s @ b = (a @ u) @ pat @ (v @ b)" by simp
  then show ?thesis unfolding str_in_iff by blast
qed

lemma format_exc_trace: "str_in pat (api_trace e) \<Longrightarrow> str_in pat (format_exc e)"
proof -
  assume h: "str_in pat (api_trace e)"
  have eq: "format_exc e = [] @ api_trace e @
     (''gspread.exceptions.APIError'' @
     (if api_message e = [] then [] else '': '' @ api_message e) @ [CHR 0x0A])"
    by (simp add: format_exc_def)
  show ?thesis unfolding eq using h by (rule str_in_embedded)
qed

lemma format_exc_message:
  assumes "str_in pat (api_message e)" and "pat \<noteq> []"
  shows "str_in pat (format_exc e)"
proof -
  from assms have ne: "api_message e \<noteq> []" by (cases "api_message e") auto
  have eq: "format_exc e = (api_trace e @ ''gspread.exceptions.APIError: '') @
     api_message e @ [CHR 0x0A]"
    using ne by (simp add: format_exc_def)
  show ?thesis unfolding eq using assms(1) by (rule str_in_embedded)
qed

lemma classify_invalid_range: "classify (APIError invalid_range) = Some FATAL"
  by (simp add: is_502_def is_rate_limit_def is_unavailable_def invalid_range_def
      plain_trace_def format_exc_def lower_def lower_char_def)

lemma flaky_after [simp]: "remote_after (flaky k x v) n r = r + n"
  by (induction n) (simp_all add: flaky_def)

lemma flaky_outcome [simp]:
  "nth_outcome (flaky k x v) n r = (if r + n < k then Raises x else Returns v)"
  by (simp add: nth_outcome_def flaky_def)

lemma retry_loop_uniform:
  fixes f :: "('a, nat) operation"
  assumes fail: "\<And>w. fst (f w) = Raises x"
    and tr: "transient x"
    and rem: "\<And>w. remote (snd (f w)) = remote w + a"
    and sl: "\<And>w. slept (snd (f w)) = slept w @ replicate b 30"
  shows "counter + k = counter_threshold \<Longrightarrow>
         fst (retry_loop f counter w) = Raises x \<and>
         remote (snd (retry_loop f counter w)) = remote w + Suc k * a \<and>
         slept (snd (retry_loop f counter w)) = slept w @ replicate (Suc k * b + k) 30"
proof (induction k arbitrary: counter w)
  case 0
  then have "retry_loop f counter w =
      f (py_print ''Final attempt after hitting retry threshold.'' w)"
    by (intro retry_loop_final) simp
  then show ?case by (simp add: fail rem sl)
next
  case (Suc k)
  let ?w2 = "py_sleep 30 (py_print (attempt_line x counter) (snd (f w)))"
  have lt: "counter < counter_threshold" using Suc.prems by simp
  have fw: "f w = (Raises x, snd (f w))" using fail [of w] by (cases "f w") simp
  have exc: "except_clauses x counter (snd (f w)) = (Fall ?w2 :: ('a, nat) try_exit)"
    using tr by (rule except_clauses_transient)
  have step: "retry_loop f counter w = retry_loop f (counter + 1) ?w2"
    using lt fw exc by (rule retry_loop_fall)
  have "counter + 1 + k = counter_threshold" using Suc.prems by simp
  from Suc.IH [OF this, of ?w2]
  have ih: "fst (retry_loop f (counter + 1) ?w2) = Raises x"
    "remote (snd (retry_loop f (counter + 1) ?w2)) = remote ?w2 + Suc k * a"
    "slept (snd (retry_loop f (counter + 1) ?w2)) = slept ?w2 @ replicate (Suc k * b + k) 30"
    by simp_all
  have count: "replicate b 30 @ [30] @ replicate (Suc k * b + k) 30 =
      replicate (Suc (Suc k) * b + Suc k) (30::nat)"
  proof -
    have "replicate b 30 @ [30] @ replicate (Suc k * b + k) 30 =
        replicate (b + (1 + (Suc k * b + k))) (30::nat)"
      by (simp add: replicate_add replicate_append_same)
    moreover have "b + (1 + (Suc k * b + k)) = Suc (Suc k) * b + Suc k" by simp
    ultimately show ?thesis by simp
  qed
  show ?case
    unfolding step using ih count by (simp add: rem sl)
qed

lemma open_fails_once:
  "fst (remote_call (client_open outage_api c name) w) = Raises (APIError bad_gateway)"
  "remote (snd (remote_call (client_open outage_api c name) w)) = remote w + 1"
  "slept (snd (remote_call (client_open outage_api c name) w)) = slept w @ replicate 0 30"
  by (simp_all add: remote_call_def outage_api_def)

lemma transient_bad_gateway: "transient (APIError bad_gateway)"
  by (simp add: transient_def str_in_502)

lemma open_workbook_outage:
  "fst (open_workbook outage_api c name w) = Raises (APIError bad_gateway)"
  "remote (snd (open_workbook outage_api c name w)) = remote w + 10"
  "slept (snd (open_workbook outage_api c name w)) = slept w @ replicate 9 30"
proof -
  have "0 + 9 = counter_threshold" by (simp add: counter_threshold_def)
  from retry_loop_uniform [where f = "remote_call (client_open outage_api c name)"
      and a = 1 and b = 0 and w = w, OF open_fails_once(1) transient_bad_gateway
      open_fails_once(2) open_fails_once(3) this]
  show "fst (open_workbook outage_api c name w) = Raises (APIError bad_gateway)"
    "remote (snd (open_workbook outage_api c name w)) = remote w + 10"
    "slept (snd (open_workbook outage_api c name w)) = slept w @ replicate 9 30"
    by (simp_all add: open_workbook_def gspread_function_def)
qed

lemma dict_of_snoc: "dict_of (ps @ [(k, v)]) = AList.update k v (dict_of ps)"
  by (simp add: dict_of_def)

lemma dict_of_keys: "fst ` set (dict_of ps) = fst ` set ps"
proof (induction ps rule: rev_induct)
  case Nil
  show ?case by (simp add: dict_of_def)
next
  case (snoc p ps)
  obtain k v where p: "p = (k, v)" by (cases p)
  show ?case using snoc by (simp add: p dict_of_snoc dom_update)
qed

lemma update_entries: "set (AList.update k v al) \<subseteq> insert (k, v) (set al)"
  by (induction al) auto

lemma dict_of_entries: "set (dict_of ps) \<subseteq> set ps"
proof (induction ps rule: rev_induct)
  case Nil
  show ?case by (simp add: dict_of_def)
next
  case (snoc p ps)
  obtain k v where p: "p = (k, v)" by (cases p)
  show ?case using snoc update_entries [of k v "dict_of ps"]
    by (auto simp: p dict_of_snoc)
qed

lemma dict_of_lookup:
  assumes "k \<in> fst ` set ps"
  shows "\<exists>v. map_of (dict_of ps) k = Some v \<and> (k, v) \<in> set ps"
proof -
  from assms have "k \<in> fst ` set (dict_of ps)" by (simp add: dict_of_keys)
  then obtain v where v: "map_of (dict_of ps) k = Some v"
    by (cases "map_of (dict_of ps) k") (auto simp: map_of_eq_None_iff)
  then have "(k, v) \<in> set (dict_of ps)" by (rule map_of_SomeD)
  with dict_of_entries have "(k, v) \<in> set ps" by blast
  with v show ?thesis by blast
qed

lemma of_char_lower_char:
  "(of_char (lower_char c) :: nat) =
     (if (65 \<le> (of_char c :: nat) \<and> (of_char c :: nat) \<le> 90) \<or>
         (192 \<le> (of_char c :: nat) \<and> (of_char c :: nat) \<le> 222 \<and> (of_char c :: nat) \<noteq> 215)
      then of_char c + 32 else of_char c)"
  by (auto simp: lower_char_def Let_def)

lemma same_letter_iff:
  "(c = d \<or> lower_char c = d \<or> c = lower_char d) \<longleftrightarrow> lower_char c = lower_char d"
proof -
  have "(c = d \<or> lower_char c = d \<or> c = lower_char d) \<longleftrightarrow>
      ((of_char c :: nat) = of_char d \<or> (of_char (lower_char c) :: nat) = of_char d \<or>
       (of_char c :: nat) = of_char (lower_char d))"
    by simp
  also have "\<dots> \<longleftrightarrow> (of_char (lower_char c) :: nat) = of_char (lower_char d)"
    unfolding of_char_lower_char by (auto split: if_splits)
  also have "\<dots> \<longleftrightarrow> lower_char c = lower_char d" by simp
  finally show ?thesis .
qed

lemma same_up_to_case_iff: "same_up_to_case a b \<longleftrightarrow> lower a = lower b"
proof -
  have "lower a = lower b \<longleftrightarrow> list_all2 (=) (map lower_char a) (map lower_char b)"
    by (simp add: lower_def list.rel_eq)
  also have "\<dots> \<longleftrightarrow> list_all2 (\<lambda>c d. lower_char c = lower_char d) a b"
    by (simp add: list.rel_map)
  finally show ?thesis
    by (simp add: same_up_to_case_def same_letter_iff)
qed

lemma dict_of_key_order: "map fst (dict_of ps) = first_seen (map fst ps)"
proof (induction ps rule: rev_induct)
  case Nil
  show ?case by (simp add: dict_of_def first_seen_def)
next
  case (snoc p ps)
  obtain k v where p: "p = (k, v)" by (cases p)
  show ?case using snoc by (simp add: p dict_of_snoc update_keys first_seen_def)
qed

lemma first_seen_map_first_seen: "first_seen (map f (first_seen xs)) = first_seen (map f xs)"
  by (simp add: first_seen_def rev_map remdups_map_remdups)

lemma worksheet_names_keys:
  "map fst (dict_of (map (\<lambda>(k, v). (lower k, v)) (dict_of (map (\<lambda>ws. (title ws, wid ws)) wss)))) =
   first_seen (map (\<lambda>ws. lower (title ws)) wss)"
proof -
  let ?d1 = "dict_of (map (\<lambda>ws. (title ws, wid ws)) wss)"
  let ?low = "map (\<lambda>(k, v). (lower k, v)) ?d1"
  have k1: "map fst ?d1 = first_seen (map title wss)"
    by (simp add: dict_of_key_order comp_def)
  have k2: "map fst ?low = map lower (map fst ?d1)"
    by (simp add: case_prod_unfold comp_def)
  have "map fst (dict_of ?low) = first_seen (map fst ?low)"
    by (rule dict_of_key_order)
  also have "\<dots> = first_seen (map lower (first_seen (map title wss)))"
    by (simp only: k2 k1)
  also have "\<dots> = first_seen (map lower (map title wss))"
    by (rule first_seen_map_first_seen)
  finally show ?thesis by (simp add: comp_def)
qed

lemma set_first_seen [simp]: "set (first_seen xs) = set xs"
  by (simp add: first_seen_def)

lemma gspread_function_remote_returns:
  assumes "g (remote w) = (Returns v, r1)"
  shows "gspread_function (remote_call g) w = (Returns v, w\<lparr>remote := r1\<rparr>)"
proof -
  have lt: "0 < counter_threshold" by (simp add: counter_threshold_def)
  have "remote_call g w = (Returns v, w\<lparr>remote := r1\<rparr>)"
    using assms by (simp add: remote_call_def)
  with lt show ?thesis unfolding gspread_function_def by (rule retry_loop_returns)
qed

lemma demo_calls:
  "gspread_function (remote_call (worksheets demo_api b)) w =
     (Returns [sheet1, sheet2], w\<lparr>remote := Suc (remote w)\<rparr>)"
  "gspread_function (remote_call (get_worksheet_by_id demo_api b 0)) w =
     (Returns sheet1, w\<lparr>remote := Suc (remote w)\<rparr>)"
  "gspread_function (remote_call (ws_clear_basic_filter demo_api ws)) w =
     (Returns (JObject []), w\<lparr>remote := Suc (remote w)\<rparr>)"
  "gspread_function (remote_call (ws_freeze demo_api ws rows cols)) w =
     (Returns (JObject []), w\<lparr>remote := Suc (remote w)\<rparr>)"
  "gspread_function (remote_call (ws_clear demo_api ws)) w =
     (Returns (JObject []), w\<lparr>remote := Suc (remote w)\<rparr>)"
  "gspread_function (remote_call (ws_update demo_api ws label cells)) w =
     (Returns (JObject []), w\<lparr>remote := Suc (remote w)\<rparr>)"
  "gspread_function (remote_call (ws_format demo_api ws label fmt)) w =
     (Returns (JObject []), w\<lparr>remote := Suc (remote w)\<rparr>)"
  by (rule gspread_function_remote_returns, simp add: demo_api_def sheet1_def)+

lemma demo_sheet1: "get_sheet_by_name demo_api demo_self ''sheet1'' w =
    (Returns sheet1, w\<lparr>remote := Suc (Suc (remote w))\<rparr>)"
proof -
  have d: "dict_of (map (\<lambda>(k, v). (lower k, v))
        (dict_of [(title sheet1, wid sheet1), (title sheet2, wid sheet2)])) =
      [(''sheet1'', 0), (''sheet2'', 7)]"
    by code_simp
  have l: "lower ''sheet1'' = ''sheet1''" by code_simp
  show ?thesis
    by (simp add: get_sheet_by_name_def get_worksheet_dict_def get_sheet_by_id_def bind_op_def
        return_op_def demo_calls d l Let_def demo_self_def)
qed

lemma moody_raises:
  assumes "remote w = 4"
  shows "remote_call (values_tolist moody_df) w =
      (Raises (JSONDecodeError ''Expecting value''), w\<lparr>remote := 5\<rparr>)"
  using assms by (simp add: remote_call_def moody_df_def flaky_def)

lemma moody_conversion:
  assumes "remote w = 4"
  shows "gspread_function (remote_call (values_tolist moody_df)) w =
      (Returns [[''ada'']],
       \<lparr>remote = 6, slept = slept w @ [30],
        printed = printed w @ [''JSONDecodeError. Sleeping for 30 seconds.'']\<rparr>)"
proof -
  let ?f = "remote_call (values_tolist moody_df)"
  let ?w2 = "py_sleep 30 (py_print ''JSONDecodeError. Sleeping for 30 seconds.'' (w\<lparr>remote := 5\<rparr>))"
  have lt0: "0 < counter_threshold" and lt1: "0 + 1 < counter_threshold"
    by (simp_all add: counter_threshold_def)
  have exc: "except_clauses (JSONDecodeError ''Expecting value'') 0 (w\<lparr>remote := 5\<rparr>) =
      (Fall ?w2 :: (string list list, nat) try_exit)"
    by simp
  have "retry_loop ?f 0 w = retry_loop ?f (0 + 1) ?w2"
    using lt0 moody_raises [OF assms] exc by (rule retry_loop_fall)
  also have "\<dots> = (Returns [[''ada'']], ?w2\<lparr>remote := 6\<rparr>)"
    using lt1
    by (rule retry_loop_returns) (simp add: remote_call_def moody_df_def flaky_def)
  finally show ?thesis
    by (simp add: gspread_function_def py_sleep_def py_print_def)
qed

section \<open>The claims\<close>

text \<open>
  C1. Let the library call \<open>g\<close> fail with a transient classification on each of its first
  nine invocations. Then \<open>gspread_function\<close> sleeps exactly nine times, 30 each, prints
  the nine retry lines and the final-attempt line, invokes \<open>g\<close> a tenth time outside
  the loop and hands back the outcome of that invocation as it is, returned value or
  exception: the remote state is the one after exactly ten invocations. Whenever the
  loop condition is evaluated the counter is at most 9, it equals the number of sleeps
  and of invocations so far, and the loop does reach the threshold. The bound on the
  counter holds for every callable \<open>f\<close>, whatever it does.
\<close>

theorem retries_exhausted:
  fixes f :: "('b, 's) operation"
  assumes "\<forall>i<counter_threshold. fails_transiently (nth_outcome g i (remote w))"
  shows "gspread_function (remote_call g) w =
           (nth_outcome g 9 (remote w),
            \<lparr>remote = remote_after g 10 (remote w), slept = slept w @ replicate 9 30,
             printed = printed w @ map (\<lambda>i. line_of (nth_outcome g i (remote w)) i) [0..<9] @
               [''Final attempt after hitting retry threshold.'']\<rparr>) \<and>
         (\<forall>counter w1. loop_head (remote_call g) w counter w1 \<longrightarrow>
            counter \<le> counter_threshold \<and> slept w1 = slept w @ replicate counter 30 \<and>
            remote w1 = remote_after g counter (remote w)) \<and>
         (\<exists>w9. loop_head (remote_call g) w counter_threshold w9) \<and>
         (\<forall>counter w1. loop_head f w' counter w1 \<longrightarrow> counter \<le> counter_threshold)"
proof (intro conjI allI impI)
  let ?w9 = "\<lparr>remote = remote_after g 9 (remote w), slept = slept w @ replicate 9 30,
              printed = printed w @ map (\<lambda>i. line_of (nth_outcome g i (remote w)) (0 + i)) [0..<9]\<rparr>"
  have "retry_loop (remote_call g) 0 w = retry_loop (remote_call g) (0 + 9) ?w9"
    using assms by (intro retry_loop_transient) (simp_all add: counter_threshold_def)
  also have "\<dots> = remote_call g (py_print ''Final attempt after hitting retry threshold.'' ?w9)"
    by (rule retry_loop_final) (simp add: counter_threshold_def)
  finally show "gspread_function (remote_call g) w =
           (nth_outcome g 9 (remote w),
            \<lparr>remote = remote_after g 10 (remote w), slept = slept w @ replicate 9 30,
             printed = printed w @ map (\<lambda>i. line_of (nth_outcome g i (remote w)) i) [0..<9] @
               [''Final attempt after hitting retry threshold.'']\<rparr>)"
    by (simp add: gspread_function_def remote_call_eq py_print_def nth_outcome_def
        eval_nat_numeral)
next
  fix counter w1
  assume h: "loop_head (remote_call g) w counter w1"
  show "counter \<le> counter_threshold" using h by (rule loop_head_bound)
  show "slept w1 = slept w @ replicate counter 30" using loop_head_remote [OF h] by simp
  show "remote w1 = remote_after g counter (remote w)" using loop_head_remote [OF h] by simp
next
  show "\<exists>w9. loop_head (remote_call g) w counter_threshold w9"
    using loop_head_transient [OF assms] by blast
next
  fix counter w1
  assume "loop_head f w' counter w1"
  then show "counter \<le> counter_threshold" by (rule loop_head_bound)
qed


theorem retries_exhausted_witness:
  "gspread_function (remote_call (always_raises (APIError bad_gateway))) fresh =
     (Raises (APIError bad_gateway),
      \<lparr>remote = 10, slept = [30, 30, 30, 30, 30, 30, 30, 30, 30],
       printed =
         [''502 Server Error. Retrying (1/9)...'', ''502 Server Error. Retrying (2/9)...'',
          ''502 Server Error. Retrying (3/9)...'', ''502 Server Error. Retrying (4/9)...'',
          ''502 Server Error. Retrying (5/9)...'', ''502 Server Error. Retrying (6/9)...'',
          ''502 Server Error. Retrying (7/9)...'', ''502 Server Error. Retrying (8/9)...'',
          ''502 Server Error. Retrying (9/9)...'',
          ''Final attempt after hitting retry threshold.'']\<rparr>)"
proof -
  have hyp: "\<forall>i<counter_threshold.
      fails_transiently (nth_outcome (always_raises (APIError bad_gateway)) i (remote fresh))"
    by (simp add: fails_transiently_def transient_def str_in_502)
  have lines: "map (\<lambda>i. attempt_line (APIError bad_gateway) i) [0..<9] =
         [''502 Server Error. Retrying (1/9)...'', ''502 Server Error. Retrying (2/9)...'',
          ''502 Server Error. Retrying (3/9)...'', ''502 Server Error. Retrying (4/9)...'',
          ''502 Server Error. Retrying (5/9)...'', ''502 Server Error. Retrying (6/9)...'',
          ''502 Server Error. Retrying (7/9)...'', ''502 Server Error. Retrying (8/9)...'',
          ''502 Server Error. Retrying (9/9)...'']"
    by code_simp
  have sleeps: "replicate 9 (30::nat) = [30, 30, 30, 30, 30, 30, 30, 30, 30]"
    by code_simp
  have "gspread_function (remote_call (always_raises (APIError bad_gateway))) fresh =
      (nth_outcome (always_raises (APIError bad_gateway)) 9 (remote fresh),
       \<lparr>remote = remote_after (always_raises (APIError bad_gateway)) 10 (remote fresh),
        slept = slept fresh @ replicate 9 30,
        printed = printed fresh @
          map (\<lambda>i. line_of (nth_outcome (always_raises (APIError bad_gateway)) i (remote fresh)) i)
            [0..<9] @
          [''Final attempt after hitting retry threshold.'']\<rparr>)"
    using retries_exhausted [OF hyp] by (rule conjunct1)
  then show ?thesis
    by (simp add: fresh_def line_of_def lines sleeps)
qed


text \<open>
  C2. Let the first invocation of \<open>f\<close> raise an API error that the handler classifies as
  fatal, that is, one that matches none of its transient patterns. Then
  \<open>gspread_function\<close> prints the traceback and re-raises that same exception at once:
  the world is the one after the single invocation plus the printed traceback, nothing
  is slept, and the loop condition is evaluated only once, with the counter at 0.
\<close>

theorem fatal_api_error_raised_at_once:
  fixes f :: "('a, 'r) operation"
  assumes "f w = (Raises (APIError e), w1)" and "classify (APIError e) = Some FATAL"
  shows "gspread_function f w = (Raises (APIError e), py_print (format_exc e) w1) \<and>
         slept (py_print (format_exc e) w1) = slept w1 \<and>
         (\<forall>counter w2. loop_head f w counter w2 \<longrightarrow> counter = 0 \<and> w2 = w)"
proof (intro conjI allI impI)
  have lt: "0 < counter_threshold" by (simp add: counter_threshold_def)
  show "gspread_function f w = (Raises (APIError e), py_print (format_exc e) w1)"
    unfolding gspread_function_def
    using lt assms(1) except_clauses_fatal [OF assms(2)] by (rule retry_loop_leave)
  show "slept (py_print (format_exc e) w1) = slept w1" by simp
  have exc: "except_clauses (APIError e) 0 w1 =
      (Leave (Raises (APIError e), py_print (format_exc e) w1) :: ('a, 'r) try_exit)"
    using assms(2) by (rule except_clauses_fatal)
  have leave: "try_call f 0 w = Leave (Raises (APIError e), py_print (format_exc e) w1)"
    using assms(1) exc by (simp add: try_call_def)
  fix counter w2
  assume h: "loop_head f w counter w2"
  show "counter = 0" using loop_head_leave [OF h leave] by simp
  show "w2 = w" using loop_head_leave [OF h leave] by simp
qed

theorem fatal_api_error_raised_at_once_witness:
  "gspread_function (remote_call (always_raises (APIError invalid_range))) fresh =
     (Raises (APIError invalid_range),
      \<lparr>remote = 1, slept = [], printed = [format_exc invalid_range]\<rparr>)"
proof -
  have call: "remote_call (always_raises (APIError invalid_range)) fresh =
      (Raises (APIError invalid_range), \<lparr>remote = 1, slept = [], printed = []\<rparr>)"
    by (simp add: remote_call_def always_raises_def fresh_def)
  from fatal_api_error_raised_at_once [where f = "remote_call (always_raises (APIError invalid_range))" and w = fresh,
      OF call classify_invalid_range]
  show ?thesis
    by (simp add: py_print_def)
qed

text \<open>
  C3. Let the library call \<open>g\<close> fail with a transient classification on its first \<open>k\<close>
  invocations, \<open>k < 9\<close>, and return \<open>v\<close> on the next. Then \<open>gspread_function\<close> returns
  \<open>v\<close> after exactly \<open>k\<close> sleeps of 30 and \<open>k + 1\<close> invocations. In particular a callable
  that returns on its first invocation has its value and world handed back unchanged:
  nothing is printed, nothing is slept.
\<close>

theorem transient_failures_then_success:
  fixes f :: "('a, 'r) operation"
  assumes "k < counter_threshold"
    and "\<forall>i<k. fails_transiently (nth_outcome g i (remote w))"
    and "nth_outcome g k (remote w) = Returns v"
  shows "gspread_function (remote_call g) w =
           (Returns v,
            \<lparr>remote = remote_after g (Suc k) (remote w), slept = slept w @ replicate k 30,
             printed = printed w @ map (\<lambda>i. line_of (nth_outcome g i (remote w)) i) [0..<k]\<rparr>) \<and>
         (f w' = (Returns u, w1) \<longrightarrow> gspread_function f w' = (Returns u, w1))"
proof (intro conjI impI)
  let ?wk = "\<lparr>remote = remote_after g k (remote w), slept = slept w @ replicate k 30,
              printed = printed w @ map (\<lambda>i. line_of (nth_outcome g i (remote w)) (0 + i)) [0..<k]\<rparr>"
  have "retry_loop (remote_call g) 0 w = retry_loop (remote_call g) (0 + k) ?wk"
    using assms(1,2) by (intro retry_loop_transient) simp_all
  also have "\<dots> = (Returns v, ?wk\<lparr>remote := snd (g (remote ?wk))\<rparr>)"
  proof (rule retry_loop_returns)
    show "0 + k < counter_threshold" using assms(1) by simp
    show "remote_call g ?wk = (Returns v, ?wk\<lparr>remote := snd (g (remote ?wk))\<rparr>)"
      using assms(3) by (simp add: remote_call_eq nth_outcome_def)
  qed
  finally show "gspread_function (remote_call g) w =
           (Returns v,
            \<lparr>remote = remote_after g (Suc k) (remote w), slept = slept w @ replicate k 30,
             printed = printed w @ map (\<lambda>i. line_of (nth_outcome g i (remote w)) i) [0..<k]\<rparr>)"
    by (simp add: gspread_function_def)
next
  assume "f w' = (Returns u, w1)"
  then show "gspread_function f w' = (Returns u, w1)"
    unfolding gspread_function_def
    by (intro retry_loop_returns) (simp_all add: counter_threshold_def)
qed

theorem transient_failures_then_success_witness:
  "gspread_function (remote_call (flaky 2 (JSONDecodeError ''Expecting value'') (42::int))) fresh =
     (Returns 42,
      \<lparr>remote = 3, slept = [30, 30],
       printed = [''JSONDecodeError. Sleeping for 30 seconds.'',
                  ''JSONDecodeError. Sleeping for 30 seconds.'']\<rparr>) \<and>
   gspread_function (remote_call (flaky 0 (JSONDecodeError ''Expecting value'') (42::int))) fresh =
     (Returns 42, \<lparr>remote = 1, slept = [], printed = []\<rparr>)"
proof -
  let ?g = "flaky 2 (JSONDecodeError ''Expecting value'') (42::int)"
  let ?h = "remote_call (flaky 0 (JSONDecodeError ''Expecting value'') (42::int))"
  have k: "(2::nat) < counter_threshold" by (simp add: counter_threshold_def)
  have fails: "\<forall>i<2. fails_transiently (nth_outcome ?g i (remote fresh))"
    by (simp add: fresh_def fails_transiently_def transient_def)
  have ok: "nth_outcome ?g 2 (remote fresh) = Returns 42"
    by (simp add: fresh_def)
  have once: "?h fresh = (Returns 42, \<lparr>remote = 1, slept = [], printed = []\<rparr>)"
    by (simp add: remote_call_def flaky_def fresh_def)
  have two: "[0..<2] = [0, Suc 0]" by (simp add: upt_rec)
  have sleeps: "replicate 2 (30::nat) = [30, 30]" by code_simp
  note both = transient_failures_then_success [where f = ?h and w' = fresh and u = 42
      and ?w1.0 = "\<lparr>remote = 1, slept = [], printed = []\<rparr>", OF k fails ok]
  from both have "gspread_function ?h fresh =
      (Returns 42, \<lparr>remote = 1, slept = [], printed = []\<rparr>)"
    using once by blast
  moreover from both have "gspread_function (remote_call ?g) fresh =
      (Returns 42,
       \<lparr>remote = remote_after ?g (Suc 2) (remote fresh), slept = slept fresh @ replicate 2 30,
        printed = printed fresh @ map (\<lambda>i. line_of (nth_outcome ?g i (remote fresh)) i) [0..<2]\<rparr>)"
    by (rule conjunct1)
  ultimately show ?thesis
    by (simp add: fresh_def line_of_def attempt_line_def two sleeps)
qed

text \<open>
  C4. Let the first invocation of \<open>f\<close> raise an exception that is neither a
  \<open>JSONDecodeError\<close> nor an \<open>APIError\<close>. Then \<open>gspread_function\<close> lets it through as it
  is: the outcome and the world are those of the single invocation, nothing is printed
  or slept, and the counter stays at 0.
\<close>

theorem uncaught_error_propagates:
  fixes f :: "('a, 'r) operation"
  assumes "f w = (Raises x, w1)" and "\<not> caught x"
  shows "gspread_function f w = (Raises x, w1) \<and>
         (\<forall>counter w2. loop_head f w counter w2 \<longrightarrow> counter = 0 \<and> w2 = w)"
proof (intro conjI allI impI)
  have lt: "0 < counter_threshold" by (simp add: counter_threshold_def)
  from assms(2) have none: "classify x = None" by (cases x) auto
  have exc: "except_clauses x 0 w1 = (Leave (Raises x, w1) :: ('a, 'r) try_exit)"
    using none by (rule except_clauses_unclassified)
  show "gspread_function f w = (Raises x, w1)"
    unfolding gspread_function_def using lt assms(1) exc by (rule retry_loop_leave)
  have leave: "try_call f 0 w = Leave (Raises x, w1)"
    using assms(1) exc by (simp add: try_call_def)
  fix counter w2
  assume h: "loop_head f w counter w2"
  show "counter = 0" using loop_head_leave [OF h leave] by simp
  show "w2 = w" using loop_head_leave [OF h leave] by simp
qed

theorem uncaught_error_propagates_witness:
  "gspread_function (remote_call (always_raises (OtherError ''KeyError'' ''id''))) fresh =
     (Raises (OtherError ''KeyError'' ''id''), \<lparr>remote = 1, slept = [], printed = []\<rparr>)"
proof -
  have call: "remote_call (always_raises (OtherError ''KeyError'' ''id'')) fresh =
      (Raises (OtherError ''KeyError'' ''id''), \<lparr>remote = 1, slept = [], printed = []\<rparr>)"
    by (simp add: remote_call_def always_raises_def fresh_def)
  have "\<not> caught (OtherError ''KeyError'' ''id'')" by simp
  from uncaught_error_propagates [where f = "remote_call (always_raises (OtherError ''KeyError'' ''id''))" and w = fresh,
      OF call this]
  show ?thesis by simp
qed

text \<open>
  C5, as amended. Inside the retry loop (counter below 9), let \<open>f\<close> raise an API error
  whose message contains "502", or whose message, trace or whole traceback text
  contain "Server Error". Then the error is classified as a transient 502: the attempt
  line "502 Server Error. Retrying (counter + 1/9)..." is printed, 30 is slept, and the
  loop goes on with the counter incremented. The claim as stated also promises this
  when "502" occurs in the stack trace only; there the handler re-raises, as the
  counterexample shows for an error raised under line 502 of a source file.
\<close>

theorem server_502_retried:
  fixes f :: "('a, 'r) operation"
  assumes "counter < counter_threshold"
    and "f w = (Raises (APIError e), w1)"
    and "str_in ''502'' (api_message e) \<or> str_in ''Server Error'' (api_message e) \<or>
         str_in ''Server Error'' (api_trace e) \<or> str_in ''Server Error'' (format_exc e)"
  shows "classify (APIError e) = Some TRANSIENT_SERVER_502 \<and>
         try_call f counter w =
           Fall (py_sleep 30 (py_print (retry_line ''502 Server Error'' counter) w1)) \<and>
         retry_loop f counter w =
           retry_loop f (counter + 1)
             (py_sleep 30 (py_print (retry_line ''502 Server Error'' counter) w1))"
proof -
  have "is_502 e"
    using assms(3) format_exc_message [of "''Server Error''" e]
      format_exc_trace [of "''Server Error''" e]
    by (auto simp: is_502_def)
  then have exc: "except_clauses (APIError e) counter w1 =
      (Fall (py_sleep 30 (py_print (retry_line ''502 Server Error'' counter) w1)) :: ('a, 'r) try_exit)"
    and cls: "classify (APIError e) = Some TRANSIENT_SERVER_502"
    by simp_all
  have "try_call f counter w =
      Fall (py_sleep 30 (py_print (retry_line ''502 Server Error'' counter) w1))"
    using assms(2) exc by (simp add: try_call_def)
  moreover have "retry_loop f counter w =
      retry_loop f (counter + 1)
        (py_sleep 30 (py_print (retry_line ''502 Server Error'' counter) w1))"
    using assms(1,2) exc by (rule retry_loop_fall)
  ultimately show ?thesis using cls by simp
qed

theorem server_502_retried_witness:
  "classify (APIError bad_gateway) = Some TRANSIENT_SERVER_502 \<and>
   try_call (remote_call (always_raises (APIError bad_gateway))) 0 fresh =
     Fall \<lparr>remote = 1, slept = [30], printed = [''502 Server Error. Retrying (1/9)...'']\<rparr>"
proof -
  have lt: "0 < counter_threshold" by (simp add: counter_threshold_def)
  have call: "remote_call (always_raises (APIError bad_gateway)) fresh =
      (Raises (APIError bad_gateway), \<lparr>remote = 1, slept = [], printed = []\<rparr>)"
    by (simp add: remote_call_def always_raises_def fresh_def)
  have pat: "str_in ''502'' (api_message bad_gateway) \<or>
      str_in ''Server Error'' (api_message bad_gateway) \<or>
      str_in ''Server Error'' (api_trace bad_gateway) \<or>
      str_in ''Server Error'' (format_exc bad_gateway)"
    by (simp add: bad_gateway_def)
  have line: "retry_line ''502 Server Error'' 0 = ''502 Server Error. Retrying (1/9)...''"
    by code_simp
  from server_502_retried [where f = "remote_call (always_raises (APIError bad_gateway))" and w = fresh,
      OF lt call pat]
  show ?thesis
    by (simp add: py_sleep_def py_print_def line)
qed

theorem server_502_retried_counterexample:
  "spec_502 line_502 \<and>
   classify (APIError line_502) = Some FATAL \<and>
   try_call (remote_call (always_raises (APIError line_502))) 0 fresh =
     Leave (Raises (APIError line_502),
            \<lparr>remote = 1, slept = [], printed = [format_exc line_502]\<rparr>) \<and>
   gspread_function (remote_call (always_raises (APIError line_502))) fresh =
     (Raises (APIError line_502), \<lparr>remote = 1, slept = [], printed = [format_exc line_502]\<rparr>)"
proof -
  have spec: "spec_502 line_502"
    by (simp add: spec_502_def line_502_def format_exc_def)
  have fatal: "classify (APIError line_502) = Some FATAL"
    by (simp add: is_502_def is_rate_limit_def is_unavailable_def line_502_def
        format_exc_def lower_def lower_char_def)
  have call: "remote_call (always_raises (APIError line_502)) fresh =
      (Raises (APIError line_502), \<lparr>remote = 1, slept = [], printed = []\<rparr>)"
    by (simp add: remote_call_def always_raises_def fresh_def)
  have exc: "except_clauses (APIError line_502) 0 \<lparr>remote = 1::nat, slept = [], printed = []\<rparr> =
      (Leave (Raises (APIError line_502),
         py_print (format_exc line_502) \<lparr>remote = 1, slept = [], printed = []\<rparr>)
       :: (int, nat) try_exit)"
    using fatal by (rule except_clauses_fatal)
  have t: "try_call (remote_call (always_raises (APIError line_502))) 0 fresh =
     Leave (Raises (APIError line_502),
            \<lparr>remote = 1, slept = [], printed = [format_exc line_502]\<rparr>)"
    using call exc by (simp add: try_call_def py_print_def)
  have "retry_loop (remote_call (always_raises (APIError line_502))) 0 fresh =
     (Raises (APIError line_502), \<lparr>remote = 1, slept = [], printed = [format_exc line_502]\<rparr>)"
    by (subst retry_loop.simps) (simp add: t counter_threshold_def)
  with spec fatal t show ?thesis by (simp add: gspread_function_def)
qed

text \<open>
  C6. The code at the failing input: every \<open>open\<close> of the remote fails with a 502.
  \<open>open_workbook\<close> alone passes \<open>gc.open\<close> through one wrapper: 10 invocations and 9
  sleeps. \<open>__init__\<close> passes \<open>open_workbook\<close>, which already retries, through a second
  wrapper: the outer loop calls \<open>open_workbook\<close> 10 times, so \<open>gc.open\<close> is invoked 100
  times and 99 sleeps are taken before the error reaches the caller.
\<close>

theorem init_opens_through_nested_wrappers:
  "fst (open_workbook outage_api (Client 0) ''Budget'' fresh) = Raises (APIError bad_gateway) \<and>
   remote (snd (open_workbook outage_api (Client 0) ''Budget'' fresh)) = 10 \<and>
   slept (snd (open_workbook outage_api (Client 0) ''Budget'' fresh)) = replicate 9 30 \<and>
   fst (GSPREAD_init outage_api (Client 0) ''Budget'' fresh) = Raises (APIError bad_gateway) \<and>
   remote (snd (GSPREAD_init outage_api (Client 0) ''Budget'' fresh)) = 100 \<and>
   slept (snd (GSPREAD_init outage_api (Client 0) ''Budget'' fresh)) = replicate 99 30"
proof -
  have nine: "0 + 9 = counter_threshold" by (simp add: counter_threshold_def)
  have acct: "remote_call (service_account outage_api) fresh = (Returns (Client 1), fresh)"
    by (simp add: remote_call_def outage_api_def demo_api_def fresh_def)
  note outer = retry_loop_uniform [where f = "open_workbook outage_api (Client 0) ''Budget''"
      and a = 10 and b = 9 and w = fresh, OF open_workbook_outage(1) transient_bad_gateway
      open_workbook_outage(2) open_workbook_outage(3) nine]
  have init: "GSPREAD_init outage_api (Client 0) ''Budget'' fresh =
      (Raises (APIError bad_gateway),
       snd (retry_loop (open_workbook outage_api (Client 0) ''Budget'') 0 fresh))"
    using outer
    by (cases "retry_loop (open_workbook outage_api (Client 0) ''Budget'') 0 fresh")
      (simp add: GSPREAD_init_def bind_op_def acct gspread_function_def)
  show ?thesis
    unfolding init using outer open_workbook_outage [of "Client 0" "''Budget''" fresh]
    by (simp add: fresh_def)
qed

text \<open>
  C9. In each of the eight methods that take a sheet reference, a reference that is
  neither a \<open>Worksheet\<close>, a \<open>str\<close> nor an \<open>int\<close> raises the \<open>ValueError\<close> of
  \<open>_sheet_check\<close>, whatever the remote library does: the world is left as it was, so
  no library call was made, nothing was slept and nothing printed.
\<close>

theorem invalid_sheet_reference_rejected:
  "update_rows_by_range api self (OtherRef t) cell_range vals w =
     (Raises (ValueError ''Invalid sheet reference. Use name (str), ID (int), or Worksheet object.''), w) \<and>
   sheet_to_df api self (OtherRef t) w =
     (Raises (ValueError ''Invalid sheet reference. Use name (str), ID (int), or Worksheet object.''), w) \<and>
   append_row_to_sheet api self (OtherRef t) row w =
     (Raises (ValueError ''Invalid sheet reference. Use name (str), ID (int), or Worksheet object.''), w) \<and>
   get_sheet_url api self (OtherRef t) w =
     (Raises (ValueError ''Invalid sheet reference. Use name (str), ID (int), or Worksheet object.''), w) \<and>
   get_column_values api self (OtherRef t) index w =
     (Raises (ValueError ''Invalid sheet reference. Use name (str), ID (int), or Worksheet object.''), w) \<and>
   batch_clear api self (OtherRef t) cells w =
     (Raises (ValueError ''Invalid sheet reference. Use name (str), ID (int), or Worksheet object.''), w) \<and>
   clear_basic_filter api self (OtherRef t) w =
     (Raises (ValueError ''Invalid sheet reference. Use name (str), ID (int), or Worksheet object.''), w) \<and>
   delete_rows api self (OtherRef t) starting_index ending_index w =
     (Raises (ValueError ''Invalid sheet reference. Use name (str), ID (int), or Worksheet object.''), w)"
  by (simp add: update_rows_by_range_def sheet_to_df_def append_row_to_sheet_def
      get_sheet_url_def get_column_values_def batch_clear_def clear_basic_filter_def
      delete_rows_def bind_op_def raise_op_def)

theorem invalid_sheet_reference_rejected_witness:
  "update_rows_by_range demo_api demo_self (OtherRef ''float'') ''A1:B1'' [[''1'', ''2'']] fresh =
     (Raises (ValueError ''Invalid sheet reference. Use name (str), ID (int), or Worksheet object.''), fresh) \<and>
   delete_rows demo_api demo_self (OtherRef ''NoneType'') 2 3 fresh =
     (Raises (ValueError ''Invalid sheet reference. Use name (str), ID (int), or Worksheet object.''), fresh)"
  using invalid_sheet_reference_rejected [of demo_api demo_self "''float''" "''A1:B1''" "[[''1'', ''2'']]" fresh]
    invalid_sheet_reference_rejected [of demo_api demo_self "''NoneType''" _ _ fresh _ _ _ 2 3]
  by simp

text \<open>
  C10. Two runs of \<open>__init__\<close> from the same world, whose \<open>service_account\<close> calls
  yield different instance clients but leave the same remote state, and whose \<open>open\<close>
  behaves alike, open the same workbook and end in the same world: the workbook is the
  one the doubly wrapped \<open>gc.open\<close> of the module-level client gives.
\<close>

theorem init_ignores_instance_client:
  assumes "service_account api1 (remote w) = (Returns c1, r1)"
    and "service_account api2 (remote w) = (Returns c2, r1)"
    and "client_open api1 = client_open api2"
  shows "map_outcome sh (fst (GSPREAD_init api1 gc workbook_name w)) =
           map_outcome sh (fst (GSPREAD_init api2 gc workbook_name w)) \<and>
         snd (GSPREAD_init api1 gc workbook_name w) = snd (GSPREAD_init api2 gc workbook_name w) \<and>
         map_outcome sh (fst (GSPREAD_init api1 gc workbook_name w)) =
           fst (gspread_function (gspread_function (remote_call (client_open api1 gc workbook_name)))
                  (w\<lparr>remote := r1\<rparr>))"
proof -
  let ?open = "gspread_function (gspread_function (remote_call (client_open api1 gc workbook_name)))"
  have a: "GSPREAD_init api1 gc workbook_name w =
      (map_outcome (\<lambda>s. \<lparr>self_gc = c1, sh = s\<rparr>) (fst (?open (w\<lparr>remote := r1\<rparr>))),
       snd (?open (w\<lparr>remote := r1\<rparr>)))"
    using assms(1)
    by (simp add: GSPREAD_init_def bind_op_def remote_call_def open_workbook_def return_op_def
        split: prod.split outcome.split)
  have b: "GSPREAD_init api2 gc workbook_name w =
      (map_outcome (\<lambda>s. \<lparr>self_gc = c2, sh = s\<rparr>) (fst (?open (w\<lparr>remote := r1\<rparr>))),
       snd (?open (w\<lparr>remote := r1\<rparr>)))"
    using assms(2) assms(3) [symmetric]
    by (simp add: GSPREAD_init_def bind_op_def remote_call_def open_workbook_def return_op_def
        split: prod.split outcome.split)
  show ?thesis
    by (simp add: a b outcome.map_comp comp_def outcome.map_ident)
qed

theorem init_ignores_instance_client_witness:
  "map_outcome sh (fst (GSPREAD_init demo_api (Client 0) ''Budget'' fresh)) = Returns (Workbook 0) \<and>
   map_outcome sh (fst (GSPREAD_init other_api (Client 0) ''Budget'' fresh)) = Returns (Workbook 0) \<and>
   map_outcome self_gc (fst (GSPREAD_init demo_api (Client 0) ''Budget'' fresh)) = Returns (Client 1) \<and>
   map_outcome self_gc (fst (GSPREAD_init other_api (Client 0) ''Budget'' fresh)) = Returns (Client 2)"
proof -
  have lt: "0 < counter_threshold" by (simp add: counter_threshold_def)
  have inner: "gspread_function (remote_call (client_open api (Client 0) ''Budget'')) w =
      (Returns (Workbook 0), w\<lparr>remote := Suc (remote w)\<rparr>)"
    if "client_open api = client_open demo_api" for api and w :: "nat world"
    unfolding gspread_function_def using lt
    by (rule retry_loop_returns) (simp add: remote_call_def that demo_api_def)
  have outer: "gspread_function (open_workbook api (Client 0) ''Budget'') w =
      (Returns (Workbook 0), w\<lparr>remote := Suc (remote w)\<rparr>)"
    if "client_open api = client_open demo_api" for api and w :: "nat world"
    unfolding gspread_function_def using lt
    by (rule retry_loop_returns) (simp add: open_workbook_def inner [OF that])
  have same: "client_open other_api = client_open demo_api"
    by (simp add: other_api_def)
  have acct1: "service_account demo_api = (\<lambda>n. (Returns (Client 1), n))"
    by (simp add: demo_api_def)
  have acct2: "service_account other_api = (\<lambda>n. (Returns (Client 2), n))"
    by (simp add: other_api_def)
  have a: "GSPREAD_init demo_api (Client 0) ''Budget'' fresh =
      (Returns \<lparr>self_gc = Client 1, sh = Workbook 0\<rparr>, fresh\<lparr>remote := 1\<rparr>)"
    by (simp add: GSPREAD_init_def bind_op_def remote_call_def return_op_def outer
        acct1 fresh_def)
  have b: "map_outcome self_gc (fst (GSPREAD_init other_api (Client 0) ''Budget'' fresh)) =
      Returns (Client 2)"
    by (simp add: GSPREAD_init_def bind_op_def remote_call_def return_op_def outer [OF same]
        acct2 fresh_def)
  have s1: "service_account demo_api (remote fresh) = (Returns (Client 1), 0)"
    by (simp add: acct1 fresh_def)
  have s2: "service_account other_api (remote fresh) = (Returns (Client 2), 0)"
    by (simp add: acct2 fresh_def)
  from init_ignores_instance_client [OF s1 s2 same [symmetric], of "Client 0" "''Budget''"]
  have "map_outcome sh (fst (GSPREAD_init demo_api (Client 0) ''Budget'' fresh)) =
      map_outcome sh (fst (GSPREAD_init other_api (Client 0) ''Budget'' fresh))"
    by (rule conjunct1)
  with a b show ?thesis by simp
qed

text \<open>
  C8. Let the wrapped \<open>worksheets()\<close> call return the worksheets \<open>wss\<close>. If some title is
  the requested name up to case, \<open>get_sheet_by_name\<close> continues as \<open>get_sheet_by_id\<close> on
  the id of a worksheet whose title is the requested name up to case (the only such
  worksheet when titles are unique up to case). If none is, it raises the \<open>ValueError\<close>
  whose message lists the lower-cased titles, each once, in the order of the workbook,
  and makes no further call. So the method raises its name-not-found error exactly
  when no title matches up to case.
\<close>

theorem worksheet_lookup_by_name:
  assumes "gspread_function (remote_call (worksheets api (sh self))) w = (Returns wss, w1)"
  shows "((\<exists>ws\<in>set wss. same_up_to_case (title ws) sheet_name) \<longrightarrow>
            (\<exists>ws\<in>set wss. same_up_to_case (title ws) sheet_name \<and>
               get_sheet_by_name api self sheet_name w = get_sheet_by_id api self (wid ws) w1)) \<and>
         (\<not> (\<exists>ws\<in>set wss. same_up_to_case (title ws) sheet_name) \<longrightarrow>
            get_sheet_by_name api self sheet_name w =
              (Raises (ValueError (''Worksheet name must be one of '' @
                 str_list (first_seen (map (\<lambda>ws. lower (title ws)) wss)))), w1))"
proof -
  let ?d1 = "dict_of (map (\<lambda>ws. (title ws, wid ws)) wss)"
  let ?low = "map (\<lambda>(k, v). (lower k, v)) ?d1"
  let ?d2 = "dict_of ?low"
  have gd: "get_worksheet_dict api self w = (Returns ?d1, w1)"
    using assms by (simp add: get_worksheet_dict_def bind_op_def return_op_def)
  have eq: "get_sheet_by_name api self sheet_name w =
      (if lower sheet_name \<notin> set (map fst ?d2) then
         (Raises (ValueError (''Worksheet name must be one of '' @ str_list (map fst ?d2))), w1)
       else (case map_of ?d2 (lower sheet_name) of
               None \<Rightarrow> (Raises (OtherError ''KeyError'' (py_repr (lower sheet_name))), w1)
             | Some sheet_id \<Rightarrow> get_sheet_by_id api self sheet_id w1))"
    by (simp add: get_sheet_by_name_def bind_op_def gd Let_def raise_op_def split: option.split)
  have mem: "lower sheet_name \<in> set (map fst ?d2) \<longleftrightarrow>
      (\<exists>ws\<in>set wss. same_up_to_case (title ws) sheet_name)"
  proof -
    have "lower sheet_name \<in> (\<lambda>ws. lower (title ws)) ` set wss \<longleftrightarrow>
        (\<exists>ws\<in>set wss. lower (title ws) = lower sheet_name)"
      unfolding image_iff by (blast intro: sym)
    then show ?thesis
      unfolding worksheet_names_keys by (simp add: same_up_to_case_iff)
  qed
  show ?thesis
  proof (intro conjI impI)
    assume match: "\<exists>ws\<in>set wss. same_up_to_case (title ws) sheet_name"
    then have "lower sheet_name \<in> set (map fst ?d2)" using mem by simp
    then have inkeys: "lower sheet_name \<in> fst ` set ?low"
      by (simp add: dict_of_keys)
    from dict_of_lookup [OF inkeys] obtain i
      where i: "map_of ?d2 (lower sheet_name) = Some i" "(lower sheet_name, i) \<in> set ?low"
      by blast
    from i(2) obtain k where k: "(k, i) \<in> set ?d1" "lower k = lower sheet_name" by auto
    from k(1) dict_of_entries have "(k, i) \<in> set (map (\<lambda>ws. (title ws, wid ws)) wss)" by blast
    then obtain ws where ws: "ws \<in> set wss" "title ws = k" "wid ws = i" by auto
    have "same_up_to_case (title ws) sheet_name"
      using ws(2) k(2) by (simp add: same_up_to_case_iff)
    moreover have "get_sheet_by_name api self sheet_name w = get_sheet_by_id api self (wid ws) w1"
      using eq match mem i(1) ws(3) by simp
    ultimately show "\<exists>ws\<in>set wss. same_up_to_case (title ws) sheet_name \<and>
        get_sheet_by_name api self sheet_name w = get_sheet_by_id api self (wid ws) w1"
      using ws(1) by blast
  next
    assume "\<not> (\<exists>ws\<in>set wss. same_up_to_case (title ws) sheet_name)"
    then have "lower sheet_name \<notin> set (map fst ?d2)" using mem by simp
    then show "get_sheet_by_name api self sheet_name w =
        (Raises (ValueError (''Worksheet name must be one of '' @
           str_list (first_seen (map (\<lambda>ws. lower (title ws)) wss)))), w1)"
      using eq by (simp add: worksheet_names_keys)
  qed
qed

theorem worksheet_lookup_by_name_witness:
  \<open>get_sheet_by_name demo_api demo_self ''Sheet1'' fresh =
     (Returns sheet1, \<lparr>remote = 2, slept = [], printed = []\<rparr>) \<and>
   get_sheet_by_name demo_api demo_self ''Missing'' fresh =
     (Raises (ValueError ''Worksheet name must be one of ['sheet1', 'sheet2']''),
      \<lparr>remote = 1, slept = [], printed = []\<rparr>)\<close>
proof -
  let ?w1 = "\<lparr>remote = 1::nat, slept = [], printed = []\<rparr>"
  have lt: "0 < counter_threshold" by (simp add: counter_threshold_def)
  have call: "gspread_function (remote_call (worksheets demo_api (sh demo_self))) fresh =
      (Returns [sheet1, sheet2], ?w1)"
    unfolding gspread_function_def using lt
    by (rule retry_loop_returns) (simp add: remote_call_def demo_api_def fresh_def)
  have by_id: "get_sheet_by_id demo_api demo_self (wid sheet1) ?w1 =
      (Returns sheet1, \<lparr>remote = 2, slept = [], printed = []\<rparr>)"
    unfolding get_sheet_by_id_def gspread_function_def using lt
    by (rule retry_loop_returns) (simp add: remote_call_def demo_api_def)
  have m1: "same_up_to_case (title sheet1) ''Sheet1''" by code_simp
  have m2: "\<not> same_up_to_case (title sheet2) ''Sheet1''" by code_simp
  have n1: "\<not> same_up_to_case (title sheet1) ''Missing''" by code_simp
  have n2: "\<not> same_up_to_case (title sheet2) ''Missing''" by code_simp
  have msg: \<open>''Worksheet name must be one of '' @
      str_list (first_seen (map (\<lambda>ws. lower (title ws)) [sheet1, sheet2])) =
      ''Worksheet name must be one of ['sheet1', 'sheet2']''\<close>
    by code_simp
  note hit = worksheet_lookup_by_name [OF call, of "''Sheet1''"]
  note miss = worksheet_lookup_by_name [OF call, of "''Missing''"]
  from hit m1 m2 have "get_sheet_by_name demo_api demo_self ''Sheet1'' fresh =
      get_sheet_by_id demo_api demo_self (wid sheet1) ?w1"
    by auto
  moreover from miss n1 n2 have "get_sheet_by_name demo_api demo_self ''Missing'' fresh =
      (Raises (ValueError (''Worksheet name must be one of '' @
         str_list (first_seen (map (\<lambda>ws. lower (title ws)) [sheet1, sheet2])))), ?w1)"
    by auto
  ultimately show ?thesis by (simp only: by_id msg)
qed

text \<open>
  C7, as amended. \<open>replace_worksheet_with_df\<close> hands the conversion
  \<open>df.values.tolist()\<close> to \<open>gspread_function\<close>, like its remote calls. For a conversion
  that returns without raising, as that of a pandas frame does, the wrapper invokes it
  exactly once and adds no sleep, no retry and no output, so the method behaves as if
  the conversion were called outside the retry wrapper. The claim as stated says the
  conversion is not passed through the wrapper and is never retried or slept on; the
  counterexample is a frame-like object whose conversion raises a \<open>JSONDecodeError\<close>
  once: the code sleeps 30 and converts again, where a call outside the wrapper would
  have raised.
\<close>

theorem conversion_wrapped_runs_once:
  assumes "\<forall>r. \<exists>rows r1. values_tolist df r = (Returns rows, r1)"
  shows "gspread_function (remote_call (values_tolist df)) w =
           (fst (values_tolist df (remote w)), w\<lparr>remote := snd (values_tolist df (remote w))\<rparr>) \<and>
         replace_worksheet_with_df api self worksheet_name df extra_rows =
           replace_worksheet_with_df_unwrapped api self worksheet_name df extra_rows"
proof -
  have once: "gspread_function (remote_call (values_tolist df)) u =
      (fst (values_tolist df (remote u)), u\<lparr>remote := snd (values_tolist df (remote u))\<rparr>)" for u
  proof -
    from assms obtain rows r1 where "values_tolist df (remote u) = (Returns rows, r1)" by blast
    then show ?thesis by (simp add: gspread_function_remote_returns)
  qed
  have "gspread_function (remote_call (values_tolist df)) = remote_call (values_tolist df)"
    by (rule ext) (simp add: once remote_call_eq)
  then have "replace_worksheet_with_df api self worksheet_name df extra_rows =
      replace_worksheet_with_df_unwrapped api self worksheet_name df extra_rows"
    by (simp add: replace_worksheet_with_df_def replace_worksheet_with_df_unwrapped_def)
  with once show ?thesis by simp
qed

theorem conversion_wrapped_runs_once_witness:
  "replace_worksheet_with_df demo_api demo_self ''sheet1'' (frame [''name''] [[''ada'']]) 0 fresh =
     (Returns sheet1, \<lparr>remote = 8, slept = [], printed = []\<rparr>) \<and>
   replace_worksheet_with_df_unwrapped demo_api demo_self ''sheet1'' (frame [''name''] [[''ada'']]) 0
       fresh =
     (Returns sheet1, \<lparr>remote = 8, slept = [], printed = []\<rparr>)"
proof -
  let ?df = "frame [''name''] [[''ada'']] :: nat dataframe"
  have pure: "\<forall>r. \<exists>rows r1. values_tolist ?df r = (Returns rows, r1)"
    by (simp add: frame_def)
  have direct: "replace_worksheet_with_df_unwrapped demo_api demo_self ''sheet1'' ?df 0 fresh =
      (Returns sheet1, \<lparr>remote = 8, slept = [], printed = []\<rparr>)"
    by (simp add: replace_worksheet_with_df_unwrapped_def bind_op_def demo_sheet1 demo_calls
        remote_call_def frame_def Let_def return_op_def fresh_def)
  from conversion_wrapped_runs_once [OF pure, of fresh demo_api demo_self "''sheet1''" 0]
  have "replace_worksheet_with_df demo_api demo_self ''sheet1'' ?df 0 =
      replace_worksheet_with_df_unwrapped demo_api demo_self ''sheet1'' ?df 0"
    by (rule conjunct2)
  with direct show ?thesis by simp
qed

theorem conversion_wrapped_runs_once_counterexample:
  "replace_worksheet_with_df demo_api demo_self ''sheet1'' moody_df 0 fresh =
     (Returns sheet1,
      \<lparr>remote = 10, slept = [30], printed = [''JSONDecodeError. Sleeping for 30 seconds.'']\<rparr>) \<and>
   replace_worksheet_with_df_unwrapped demo_api demo_self ''sheet1'' moody_df 0 fresh =
     (Raises (JSONDecodeError ''Expecting value''), \<lparr>remote = 5, slept = [], printed = []\<rparr>)"
proof -
  have cols: "columns moody_df = [''name'']" "shape1 moody_df = 1"
    by (simp_all add: moody_df_def)
  have a: "replace_worksheet_with_df demo_api demo_self ''sheet1'' moody_df 0 fresh =
     (Returns sheet1,
      \<lparr>remote = 10, slept = [30], printed = [''JSONDecodeError. Sleeping for 30 seconds.'']\<rparr>)"
    by (simp add: replace_worksheet_with_df_def bind_op_def demo_sheet1 demo_calls
        moody_conversion cols Let_def return_op_def fresh_def)
  have b: "replace_worksheet_with_df_unwrapped demo_api demo_self ''sheet1'' moody_df 0 fresh =
     (Raises (JSONDecodeError ''Expecting value''), \<lparr>remote = 5, slept = [], printed = []\<rparr>)"
    by (simp add: replace_worksheet_with_df_unwrapped_def bind_op_def demo_sheet1 demo_calls
        moody_raises cols Let_def return_op_def fresh_def)
  from a b show ?thesis by simp
qed

end
